theory Spec2Isabelle
  imports
    Main
    "HOL-Library.AList"
    "HOL-Library.Sublist"
    "HOL-Library.Char_ord"
    "HOL-Library.List_Lexorder"
begin

section \<open>Python values of the prompt repository editor\<close>

text \<open>
  The editor (\<^verbatim>\<open>streamlit_app.py\<close>) keeps the prompt repository as the value that
  \<^verbatim>\<open>json.loads\<close> returns: nested dicts, lists, strings, numbers, booleans and None.
  A dict is an association list in insertion order with distinct keys. A Python string is
  a list of code points; \<^typ>\<open>char\<close> has 256 values, so the model covers text in the
  Latin-1 range. Python's decoder also reads the three constants \<^verbatim>\<open>NaN\<close>, \<^verbatim>\<open>Infinity\<close> and
  \<^verbatim>\<open>-Infinity\<close> as floats; finite numbers with a fraction are left out.
\<close>

datatype nonfinite = NaN | PosInfinity | NegInfinity

datatype json =
    JNull
  | JBool bool
  | JInt int
  | JNonFinite nonfinite
  | JStr string
  | JArr "json list"
  | JObj "(string \<times> json) list"

text \<open>
  The exceptions that the script can raise on a value of the wrong shape, and the two
  that \<^verbatim>\<open>json.loads\<close> can raise on a text: \<^verbatim>\<open>JSONDecodeError\<close> when the text is not
  accepted, \<^verbatim>\<open>RecursionError\<close> when it is nested too deeply to be scanned.
\<close>

datatype py_exn =
    AttributeError | TypeError | KeyError | IndexError | ValueError
  | JSONDecodeError | RecursionError

text \<open>Truth value of a Python object, as \<^verbatim>\<open>not x\<close> and \<^verbatim>\<open>if x\<close> test it.\<close>

fun truthy :: "json \<Rightarrow> bool" where
  "truthy JNull = False"
| "truthy (JBool b) = b"
| "truthy (JInt i) = (i \<noteq> 0)"
| "truthy (JNonFinite f) = True"
| "truthy (JStr s) = (s \<noteq> [])"
| "truthy (JArr xs) = (xs \<noteq> [])"
| "truthy (JObj kvs) = (kvs \<noteq> [])"

text \<open>
  Python's \<^verbatim>\<open>==\<close> on these values: a bool is the integer 0 or 1; NaN equals nothing,
  not even itself; lists are equal when they have the same length and equal items in
  order; dicts are equal when they have the same number of keys and every key of the
  first is a key of the second with an equal value; values of different kinds are not
  equal.
\<close>

fun py_eq :: "json \<Rightarrow> json \<Rightarrow> bool"
  and py_eq_list :: "json list \<Rightarrow> json list \<Rightarrow> bool"
  and py_eq_items :: "(string \<times> json) list \<Rightarrow> (string \<times> json) list \<Rightarrow> bool" where
  "py_eq JNull JNull = True"
| "py_eq (JBool a) (JBool b) = (a = b)"
| "py_eq (JBool a) (JInt b) = ((if a then 1 else 0) = b)"
| "py_eq (JInt a) (JBool b) = (a = (if b then 1 else 0))"
| "py_eq (JInt a) (JInt b) = (a = b)"
| "py_eq (JNonFinite a) (JNonFinite b) = (a = b \<and> a \<noteq> NaN)"
| "py_eq (JStr a) (JStr b) = (a = b)"
| "py_eq (JArr xs) (JArr ys) = py_eq_list xs ys"
| "py_eq (JObj xs) (JObj ys) = (length xs = length ys \<and> py_eq_items xs ys)"
| "py_eq _ _ = False"
| "py_eq_list [] [] = True"
| "py_eq_list (x # xs) (y # ys) = (py_eq x y \<and> py_eq_list xs ys)"
| "py_eq_list _ _ = False"
| "py_eq_items [] ys = True"
| "py_eq_items ((k, v) # r) ys =
     ((case map_of ys k of None \<Rightarrow> False | Some w \<Rightarrow> py_eq v w) \<and> py_eq_items r ys)"

text \<open>
  The comparison inside \<^verbatim>\<open>list.index\<close> and \<^verbatim>\<open>in\<close>: an item that is the very object
  sought matches at once, otherwise \<^verbatim>\<open>==\<close> decides. The option that the select box
  returns is the object in the list of names, and the decoder uses one object for every
  NaN, so the same value stands for the same object here.
\<close>

definition rich_eq :: "json \<Rightarrow> json \<Rightarrow> bool" where
  "rich_eq y x = (y = x \<or> py_eq y x)"

text \<open>Sequencing of steps that may raise: the first exception ends the computation.\<close>

definition bnd :: "py_exn + 'a \<Rightarrow> ('a \<Rightarrow> py_exn + 'b) \<Rightarrow> py_exn + 'b" where
  "bnd m f = (case m of Inl e \<Rightarrow> Inl e | Inr x \<Rightarrow> f x)"

text \<open>\<^verbatim>\<open>x.get(k, default)\<close>: only a dict has the method.\<close>

definition dict_get :: "json \<Rightarrow> string \<Rightarrow> json \<Rightarrow> py_exn + json" where
  "dict_get x k dflt =
     (case x of
        JObj kvs \<Rightarrow> Inr (case map_of kvs k of Some v \<Rightarrow> v | None \<Rightarrow> dflt)
      | _ \<Rightarrow> Inl AttributeError)"

text \<open>\<^verbatim>\<open>x[k]\<close> with a string key.\<close>

definition subscript_key :: "json \<Rightarrow> string \<Rightarrow> py_exn + json" where
  "subscript_key x k =
     (case x of
        JObj kvs \<Rightarrow> (case map_of kvs k of Some v \<Rightarrow> Inr v | None \<Rightarrow> Inl KeyError)
      | _ \<Rightarrow> Inl TypeError)"

text \<open>
  \<^verbatim>\<open>x[i]\<close> with an integer: a negative index counts from the end of a list or string;
  a dict decoded from JSON has string keys only, so an integer key is missing.
\<close>

definition norm_index :: "nat \<Rightarrow> int \<Rightarrow> nat option" where
  "norm_index n i =
     (let j = (if i < 0 then int n + i else i)
      in if 0 \<le> j \<and> j < int n then Some (nat j) else None)"

definition subscript_int :: "json \<Rightarrow> int \<Rightarrow> py_exn + json" where
  "subscript_int x i =
     (case x of
        JArr xs \<Rightarrow> (case norm_index (length xs) i of
                      Some j \<Rightarrow> Inr (xs ! j) | None \<Rightarrow> Inl IndexError)
      | JStr s \<Rightarrow> (case norm_index (length s) i of
                      Some j \<Rightarrow> Inr (JStr [s ! j]) | None \<Rightarrow> Inl IndexError)
      | JObj kvs \<Rightarrow> Inl KeyError
      | _ \<Rightarrow> Inl TypeError)"

text \<open>Iteration: a list gives its items, a string its characters, a dict its keys.\<close>

definition py_iter :: "json \<Rightarrow> py_exn + json list" where
  "py_iter x =
     (case x of
        JArr xs \<Rightarrow> Inr xs
      | JStr s \<Rightarrow> Inr (map (\<lambda>c. JStr [c]) s)
      | JObj kvs \<Rightarrow> Inr (map (\<lambda>kv. JStr (fst kv)) kvs)
      | _ \<Rightarrow> Inl TypeError)"

text \<open>\<^verbatim>\<open>xs.index(x)\<close>: the first position whose item equals \<open>x\<close>; ValueError if none.\<close>

fun list_index :: "json list \<Rightarrow> json \<Rightarrow> nat option" where
  "list_index [] x = None"
| "list_index (y # ys) x = (if rich_eq y x then Some 0 else map_option Suc (list_index ys x))"

section \<open>Text: join, split, strip\<close>

abbreviation nl :: char where
  "nl \<equiv> CHR 0x0A"

text \<open>\<^verbatim>\<open>"\n".join(lines)\<close> on a list of strings.\<close>

fun join_nl :: "string list \<Rightarrow> string" where
  "join_nl [] = []"
| "join_nl [x] = x"
| "join_nl (x # y # ys) = x @ nl # join_nl (y # ys)"

text \<open>\<^verbatim>\<open>text.split('\n')\<close>: one field more than there are newlines.\<close>

fun split_nl :: "string \<Rightarrow> string list" where
  "split_nl [] = [[]]"
| "split_nl (c # cs) =
     (if c = nl then [] # split_nl cs
      else (case split_nl cs of
              [] \<Rightarrow> [[c]]
            | w # ws \<Rightarrow> (c # w) # ws))"

text \<open>
  \<^verbatim>\<open>str.isspace\<close> on one character of the Latin-1 range: tab to carriage return,
  the four separators 0x1C to 0x1F, the space, NEL (0x85) and the no-break space (0xA0).
\<close>

definition py_isspace :: "char \<Rightarrow> bool" where
  "py_isspace c =
     (let n = (of_char c :: nat)
      in (9 \<le> n \<and> n \<le> 13) \<or> (28 \<le> n \<and> n \<le> 32) \<or> n = 133 \<or> n = 160)"

text \<open>\<^verbatim>\<open>text.strip()\<close>: whitespace removed at both ends.\<close>

definition strip :: "string \<Rightarrow> string" where
  "strip s = rev (dropWhile py_isspace (rev (dropWhile py_isspace s)))"

text \<open>
  \<^verbatim>\<open>"\n".join(x)\<close> on a Python value: \<open>x\<close> must be iterable and every item a string.
\<close>

fun str_items :: "json list \<Rightarrow> py_exn + string list" where
  "str_items [] = Inr []"
| "str_items (JStr s # xs) = bnd (str_items xs) (\<lambda>ss. Inr (s # ss))"
| "str_items (_ # xs) = Inl TypeError"

definition str_join :: "json \<Rightarrow> py_exn + string" where
  "str_join x = bnd (py_iter x) (\<lambda>items. bnd (str_items items) (\<lambda>ss. Inr (join_nl ss)))"

text \<open>Decimal digits of a natural number, as an f-string prints an index.\<close>

fun str_nat :: "nat \<Rightarrow> string" where
  "str_nat n =
     (if n < 10 then [char_of (48 + n)]
      else str_nat (n div 10) @ [char_of (48 + n mod 10)])"

declare str_nat.simps [simp del]

section \<open>The blob store and the libraries the script calls\<close>

text \<open>
  The Azure container is a key-value store: \<open>blobs\<close> lists every blob with its name and
  bytes, in the order in which the container happens to list them; names are unique.
  Each SDK call may raise; the three flags say which calls fail. \<open>calls\<close> records
  every call that the script makes on the container.
\<close>

datatype sdk_call =
    ListBlobs string
  | DownloadBlob string
  | UploadBlob string string

record backend =
  blobs :: "(string \<times> string) list"
  list_fails :: bool
  download_fails :: bool
  upload_fails :: bool
  calls :: "sdk_call list"

text \<open>
  \<^verbatim>\<open>json.loads\<close> and \<^verbatim>\<open>json.dumps\<close> belong to Python's standard library, not to this
  repository: they are parameters. \<open>loads\<close> gives the decoded value or the exception
  that the decoder raises; \<open>dumps d n\<close> is the text of \<open>d\<close> indented by \<open>n\<close> spaces.
\<close>

record pylib =
  loads :: "string \<Rightarrow> py_exn + json"
  dumps :: "json \<Rightarrow> nat \<Rightarrow> string"

text \<open>What the page shows through \<^verbatim>\<open>st.warning\<close>, \<^verbatim>\<open>st.info\<close>, \<^verbatim>\<open>st.error\<close>, \<^verbatim>\<open>st.success\<close>.\<close>

datatype ui_msg =
    Warning_no_repository
  | Info_loading_latest string
  | Error_load_failed
  | Success_uploaded string
  | Error_upload_failed
  | Error_no_valid_structure
  | Warning_no_prompts
  | Info_no_changes
  | Error_invalid_json

definition reserved_prefix :: string where
  "reserved_prefix = ''prompt_repo_''"

text \<open>\<^verbatim>\<open>container_client.list_blobs(name_starts_with=p)\<close>.\<close>

definition list_blobs :: "backend \<Rightarrow> string \<Rightarrow> backend \<times> (string \<times> string) list option" where
  "list_blobs b p =
     (b\<lparr>calls := calls b @ [ListBlobs p]\<rparr>,
      if list_fails b then None else Some (filter (\<lambda>kv. prefix p (fst kv)) (blobs b)))"

text \<open>\<^verbatim>\<open>get_blob_client(name).download_blob().readall()\<close>; a missing blob raises as well.\<close>

definition download_blob :: "backend \<Rightarrow> string \<Rightarrow> backend \<times> string option" where
  "download_blob b name =
     (b\<lparr>calls := calls b @ [DownloadBlob name]\<rparr>,
      if download_fails b then None else map_of (blobs b) name)"

text \<open>\<^verbatim>\<open>upload_blob(name, data, overwrite=True)\<close>: a blob of that name is replaced.\<close>

definition upload_blob :: "backend \<Rightarrow> string \<Rightarrow> string \<Rightarrow> backend \<times> bool" where
  "upload_blob b name bytes =
     (if upload_fails b then (b\<lparr>calls := calls b @ [UploadBlob name bytes]\<rparr>, False)
      else (b\<lparr>blobs := AList.update name bytes (blobs b),
              calls := calls b @ [UploadBlob name bytes]\<rparr>, True))"

section \<open>Loading the latest snapshot\<close>

text \<open>
  \<^verbatim>\<open>max(blob_list, key=lambda b: b.name)\<close>: the items are visited in order and the held
  one is replaced only by an item whose name is strictly greater.
\<close>

fun max_by_name :: "string \<times> string \<Rightarrow> (string \<times> string) list \<Rightarrow> string \<times> string" where
  "max_by_name best [] = best"
| "max_by_name best (b # bs) =
     (if fst best < fst b then max_by_name b bs else max_by_name best bs)"

definition default_document :: json where
  "default_document =
     JObj [(''APPS'', JArr [JObj [(''name'', JStr ''mmx''), (''prompts'', JArr [])]])]"

definition empty_apps_document :: json where
  "empty_apps_document = JObj [(''APPS'', JArr [])]"

text \<open>
  The body of \<^verbatim>\<open>download_latest_prompt_repo_from_blob\<close>. Every exception inside the
  \<^verbatim>\<open>try\<close> is caught: the function always returns a document.
\<close>

definition download_latest_prompt_repo_from_blob ::
    "pylib \<Rightarrow> backend \<Rightarrow> backend \<times> ui_msg list \<times> json" where
  "download_latest_prompt_repo_from_blob lib b =
     (case list_blobs b reserved_prefix of
        (b1, None) \<Rightarrow> (b1, [Error_load_failed], empty_apps_document)
      | (b1, Some []) \<Rightarrow> (b1, [Warning_no_repository], default_document)
      | (b1, Some (x # xs)) \<Rightarrow>
          (let latest_blob = max_by_name x xs in
           case download_blob b1 (fst latest_blob) of
             (b2, None) \<Rightarrow>
               (b2, [Info_loading_latest (fst latest_blob), Error_load_failed],
                empty_apps_document)
           | (b2, Some bytes) \<Rightarrow>
               (case loads lib bytes of
                  Inl e \<Rightarrow>
                    (b2, [Info_loading_latest (fst latest_blob), Error_load_failed],
                     empty_apps_document)
                | Inr d \<Rightarrow> (b2, [Info_loading_latest (fst latest_blob)], d))))"

text \<open>
  \<^verbatim>\<open>@st.cache_data(ttl=300)\<close>: Streamlit keeps the value returned by the function together
  with the time of the call and returns it again while it is younger than 300 seconds;
  \<^verbatim>\<open>st.cache_data.clear()\<close> empties the cache. The cache holds a copy of the value, so
  the session's document never shares structure with it.
\<close>

type_synonym cache_entry = "json \<times> nat"

definition cache_ttl :: nat where
  "cache_ttl = 300"

definition cached_download ::
    "pylib \<Rightarrow> nat \<Rightarrow> backend \<Rightarrow> cache_entry option
       \<Rightarrow> backend \<times> cache_entry option \<times> ui_msg list \<times> json" where
  "cached_download lib now b c =
     (case c of
        Some (d, t) \<Rightarrow>
          if now < t + cache_ttl then (b, c, [], d)
          else (case download_latest_prompt_repo_from_blob lib b of
                  (b', msgs, d') \<Rightarrow> (b', Some (d', now), msgs, d'))
      | None \<Rightarrow>
          (case download_latest_prompt_repo_from_blob lib b of
             (b', msgs, d') \<Rightarrow> (b', Some (d', now), msgs, d')))"

section \<open>Publishing a snapshot\<close>

text \<open>
  \<^verbatim>\<open>upload_prompt_repo_to_blob\<close>. \<open>ts\<close> is the clock reading
  \<^verbatim>\<open>datetime.now(timezone.utc).strftime("%Y%m%d_%H%M%S")\<close>.
\<close>

definition snapshot_name :: "string \<Rightarrow> string" where
  "snapshot_name ts = ''prompt_repo_'' @ ts @ ''.json''"

definition upload_prompt_repo_to_blob ::
    "pylib \<Rightarrow> string \<Rightarrow> backend \<Rightarrow> json \<Rightarrow> backend \<times> ui_msg list \<times> bool" where
  "upload_prompt_repo_to_blob lib ts b data_to_upload =
     (let new_blob_name = snapshot_name ts in
      case upload_blob b new_blob_name (dumps lib data_to_upload 4) of
        (b', True) \<Rightarrow> (b', [Success_uploaded new_blob_name], True)
      | (b', False) \<Rightarrow> (b', [Error_upload_failed], False))"

section \<open>The page: session state, selection of a prompt\<close>

text \<open>
  \<open>prompt_data\<close> is \<^verbatim>\<open>st.session_state.prompt_data\<close> (\<open>None\<close> while the key is not
  set), the document that the page renders and edits; \<open>cache\<close> is the entry of
  \<^verbatim>\<open>st.cache_data\<close> for the download function.
\<close>

record app_state =
  prompt_data :: "json option"
  cache :: "cache_entry option"

text \<open>
  Lines 95 to 99: the document of the session; it is downloaded (through the cache) only
  when the session has none.
\<close>

definition current_document ::
    "pylib \<Rightarrow> nat \<Rightarrow> backend \<Rightarrow> app_state \<Rightarrow> backend \<times> app_state \<times> ui_msg list \<times> json" where
  "current_document lib now b s =
     (case prompt_data s of
        Some d \<Rightarrow> (b, s, [], d)
      | None \<Rightarrow>
          (case cached_download lib now b (cache s) of
             (b', c', msgs, d) \<Rightarrow> (b', s\<lparr>prompt_data := Some d, cache := c'\<rparr>, msgs, d)))"

text \<open>Line 101: \<^verbatim>\<open>not data or not data.get("APPS")\<close>.\<close>

definition no_valid_structure :: "json \<Rightarrow> py_exn + bool" where
  "no_valid_structure data =
     (if \<not> truthy data then Inr True
      else bnd (dict_get data ''APPS'' JNull) (\<lambda>apps. Inr (\<not> truthy apps)))"

text \<open>
  Line 106: the names shown in the select box; a prompt without a name is shown as
  \<^verbatim>\<open>Unnamed Prompt i\<close>.
\<close>

fun prompt_names_from :: "nat \<Rightarrow> json list \<Rightarrow> py_exn + json list" where
  "prompt_names_from i [] = Inr []"
| "prompt_names_from i (p # ps) =
     bnd (dict_get p ''name'' (JStr (''Unnamed Prompt '' @ str_nat i))) (\<lambda>n.
     bnd (prompt_names_from (Suc i) ps) (\<lambda>ns. Inr (n # ns)))"

text \<open>
  \<^verbatim>\<open>st.selectbox(label, options)\<close> returns the option that the user picked, here the
  one at position \<open>pick\<close>, and None when there is no option. The widget offers the
  positions of the list only and starts at the first one.
\<close>

definition selectbox :: "json list \<Rightarrow> nat \<Rightarrow> json" where
  "selectbox options pick =
     (if options = [] then JNull
      else if pick < length options then options ! pick
      else options ! 0)"

record selection =
  prompt_list :: json
  prompt_names :: "json list"
  selected_prompt_name :: json
  selected_index :: int
  initial_content_str :: string

text \<open>Line 105: \<^verbatim>\<open>data["APPS"][0].get("prompts", [])\<close>.\<close>

definition first_app_prompts :: "json \<Rightarrow> py_exn + json" where
  "first_app_prompts data =
     bnd (subscript_key data ''APPS'') (\<lambda>apps.
     bnd (subscript_int apps 0) (\<lambda>app0.
       dict_get app0 ''prompts'' (JArr [])))"

text \<open>Lines 105 to 113, for the document \<open>data\<close> and the position picked in the select box.\<close>

definition select_prompt :: "json \<Rightarrow> nat \<Rightarrow> py_exn + (ui_msg list \<times> selection)" where
  "select_prompt data pick =
     bnd (first_app_prompts data) (\<lambda>plist.
     bnd (py_iter plist) (\<lambda>items.
     bnd (prompt_names_from 0 items) (\<lambda>names.
       let msgs = (if names = [] then [Warning_no_prompts] else []);
           name = selectbox names pick
       in
       bnd (if truthy name
            then (case list_index names name of
                    Some j \<Rightarrow> Inr (int j)
                  | None \<Rightarrow> Inl ValueError)
            else Inr (- 1)) (\<lambda>idx.
       bnd (if idx \<noteq> - 1
            then bnd (subscript_int plist idx) (\<lambda>p.
                 bnd (dict_get p ''content'' (JArr [])) str_join)
            else Inr []) (\<lambda>content.
         Inr (msgs,
              \<lparr>prompt_list = plist, prompt_names = names, selected_prompt_name = name,
               selected_index = idx, initial_content_str = content\<rparr>))))))"

section \<open>The two upload buttons\<close>

text \<open>
  Line 120 assigns into the deep copy of the document. The document is a tree (it comes
  from \<^verbatim>\<open>json.loads\<close>, from the default literal or from an earlier edit), so the
  assignment changes exactly the one dict on the path; the model reads along the path
  as the statement does and rebuilds the containers on it.
\<close>

definition setitem_key :: "json \<Rightarrow> string \<Rightarrow> json \<Rightarrow> py_exn + json" where
  "setitem_key x k v =
     (case x of
        JObj kvs \<Rightarrow> Inr (JObj (AList.update k v kvs))
      | _ \<Rightarrow> Inl TypeError)"

definition put_key :: "json \<Rightarrow> string \<Rightarrow> json \<Rightarrow> json" where
  "put_key x k v = (case x of JObj kvs \<Rightarrow> JObj (AList.update k v kvs) | _ \<Rightarrow> x)"

definition put_int :: "json \<Rightarrow> int \<Rightarrow> json \<Rightarrow> json" where
  "put_int x i v =
     (case x of
        JArr xs \<Rightarrow> (case norm_index (length xs) i of
                      Some j \<Rightarrow> JArr (xs[j := v]) | None \<Rightarrow> x)
      | _ \<Rightarrow> x)"

definition set_prompt_content :: "json \<Rightarrow> int \<Rightarrow> json \<Rightarrow> py_exn + json" where
  "set_prompt_content data i v =
     bnd (subscript_key data ''APPS'') (\<lambda>apps.
     bnd (subscript_int apps 0) (\<lambda>app0.
     bnd (subscript_key app0 ''prompts'') (\<lambda>prompts.
     bnd (subscript_int prompts i) (\<lambda>p.
     bnd (setitem_key p ''content'' v) (\<lambda>p'.
       Inr (put_key data ''APPS''
              (put_int apps 0
                 (put_key app0 ''prompts'' (put_int prompts i p')))))))))"

text \<open>
  The result of a button: the store, the state, the messages, and whether
  \<^verbatim>\<open>st.rerun()\<close> was reached.
\<close>

type_synonym button_result = "backend \<times> app_state \<times> ui_msg list \<times> bool"

text \<open>
  Lines 116 to 126, the button \<^verbatim>\<open>Upload Changes to Azure\<close>; \<open>edited\<close> is the content of
  the text area.
\<close>

definition upload_changes ::
    "pylib \<Rightarrow> string \<Rightarrow> backend \<Rightarrow> app_state \<Rightarrow> json \<Rightarrow> selection \<Rightarrow> string
       \<Rightarrow> py_exn + button_result" where
  "upload_changes lib ts b s data sel edited =
     (if selected_index sel \<noteq> - 1 \<and> strip edited \<noteq> strip (initial_content_str sel)
      then
        bnd (set_prompt_content data (selected_index sel)
               (JArr (map JStr (split_nl edited)))) (\<lambda>updated_data.
          case upload_prompt_repo_to_blob lib ts b updated_data of
            (b', msgs, True) \<Rightarrow>
              Inr (b', s\<lparr>prompt_data := Some updated_data, cache := None\<rparr>, msgs, True)
          | (b', msgs, False) \<Rightarrow> Inr (b', s, msgs, False))
      else Inr (b, s, [Info_no_changes], False))"

text \<open>
  Lines 143 to 151, the button \<^verbatim>\<open>Upload Raw JSON to Azure\<close>; \<open>edited_raw_json\<close> is the
  content of the raw editor. Only \<^verbatim>\<open>json.JSONDecodeError\<close> is caught at line 150; any
  other exception of the decoder leaves the script uncaught.
\<close>

definition upload_raw_json ::
    "pylib \<Rightarrow> string \<Rightarrow> backend \<Rightarrow> app_state \<Rightarrow> string \<Rightarrow> py_exn + button_result" where
  "upload_raw_json lib ts b s edited_raw_json =
     (case loads lib edited_raw_json of
        Inl e \<Rightarrow>
          if e = JSONDecodeError then Inr (b, s, [Error_invalid_json], False) else Inl e
      | Inr new_data \<Rightarrow>
          (case upload_prompt_repo_to_blob lib ts b new_data of
             (b', msgs, True) \<Rightarrow>
               Inr (b', s\<lparr>prompt_data := Some new_data, cache := None\<rparr>, msgs, True)
           | (b', msgs, False) \<Rightarrow> Inr (b', s, msgs, False)))"

section \<open>Notions used to state the properties\<close>

text \<open>The names in the store that begin with the reserved prefix.\<close>

definition reserved_keys :: "backend \<Rightarrow> string set" where
  "reserved_keys b = set (filter (prefix reserved_prefix) (map fst (blobs b)))"

text \<open>
  What the download function shows and returns once the bytes of the latest snapshot are
  known: the messages and the document.
\<close>

definition latest_result :: "pylib \<Rightarrow> backend \<Rightarrow> string \<Rightarrow> ui_msg list \<times> json" where
  "latest_result lib b bytes =
     (if download_fails b then
        ([Info_loading_latest (Max (reserved_keys b)), Error_load_failed], empty_apps_document)
      else (case loads lib bytes of
              Inl e \<Rightarrow> ([Info_loading_latest (Max (reserved_keys b)), Error_load_failed],
                         empty_apps_document)
            | Inr d \<Rightarrow> ([Info_loading_latest (Max (reserved_keys b))], d)))"

text \<open>
  RFC 8259: a JSON text is one value between optional blanks, and a value begins with a
  brace, a bracket, a quotation mark, a minus sign, a digit, or the first letter of
  \<^verbatim>\<open>true\<close>, \<^verbatim>\<open>false\<close> or \<^verbatim>\<open>null\<close>. A text that does not begin so is not valid JSON.
\<close>

definition json_blank :: "char \<Rightarrow> bool" where
  "json_blank c = (c = CHR '' '' \<or> c = CHR 0x09 \<or> c = CHR 0x0A \<or> c = CHR 0x0D)"

definition begins_json_value :: "string \<Rightarrow> bool" where
  "begins_json_value s =
     (case dropWhile json_blank s of
        [] \<Rightarrow> False
      | c # _ \<Rightarrow> c = CHR ''{'' \<or> c = CHR ''['' \<or> c = CHR 0x22 \<or> c = CHR ''-''
                 \<or> c \<in> set ''0123456789'' \<or> c \<in> set ''tfn'')"

text \<open>
  A prompt of the snapshot body format: a dict whose \<^verbatim>\<open>content\<close>, when present, is a list
  of strings.
\<close>

fun is_str :: "json \<Rightarrow> bool" where
  "is_str (JStr s) = True"
| "is_str _ = False"

definition well_formed_prompt :: "json \<Rightarrow> bool" where
  "well_formed_prompt p =
     (case p of
        JObj kvs \<Rightarrow> (case map_of kvs ''content'' of
                       None \<Rightarrow> True
                     | Some (JArr xs) \<Rightarrow> list_all is_str xs
                     | Some _ \<Rightarrow> False)
      | _ \<Rightarrow> False)"

section \<open>Example values\<close>

text \<open>
  A document with two prompts of the same name, a store with two snapshots and one other
  blob, and a stand-in for the JSON library that knows four texts, among them the
  constant \<^verbatim>\<open>NaN\<close>, which Python's decoder accepts; every other text is rejected with
  \<^verbatim>\<open>JSONDecodeError\<close>. A second document has two prompts whose name is the empty string.
  They are the concrete inputs at which the theorems below are instantiated.
\<close>

definition example_document :: json where
  "example_document =
     JObj [(''APPS'', JArr [JObj [(''name'', JStr ''mmx''), (''prompts'', JArr [
       JObj [(''name'', JStr ''greeting''), (''content'', JArr [JStr ''a'', JStr ''b''])],
       JObj [(''name'', JStr ''greeting''), (''content'', JArr [JStr ''c''])]])]])]"

definition example_edited_document :: json where
  "example_edited_document =
     JObj [(''APPS'', JArr [JObj [(''name'', JStr ''mmx''), (''prompts'', JArr [
       JObj [(''name'', JStr ''greeting''), (''content'', JArr [JStr ''a'', JStr ''b'', JStr ''c''])],
       JObj [(''name'', JStr ''greeting''), (''content'', JArr [JStr ''c''])]])]])]"

definition example_lib :: pylib where
  "example_lib =
     \<lparr>loads = (\<lambda>s. if s = ''old'' then Inr example_document
                   else if s = ''new'' then Inr example_edited_document
                   else if s = ''NaN'' then Inr (JNonFinite NaN)
                   else Inl JSONDecodeError),
      dumps = (\<lambda>d n. if d = example_edited_document then ''new''
                     else if d = JNonFinite NaN then ''NaN''
                     else ''old'')\<rparr>"

definition empty_names_document :: json where
  "empty_names_document =
     JObj [(''APPS'', JArr [JObj [(''name'', JStr ''mmx''), (''prompts'', JArr [
       JObj [(''name'', JStr []), (''content'', JArr [JStr ''x''])],
       JObj [(''name'', JStr []), (''content'', JArr [JStr ''y''])]])]])]"

definition empty_names_selection :: selection where
  "empty_names_selection =
     \<lparr>prompt_list = JArr [
        JObj [(''name'', JStr []), (''content'', JArr [JStr ''x''])],
        JObj [(''name'', JStr []), (''content'', JArr [JStr ''y''])]],
      prompt_names = [JStr [], JStr []],
      selected_prompt_name = JStr [],
      selected_index = - 1,
      initial_content_str = []\<rparr>"

definition example_backend :: backend where
  "example_backend =
     \<lparr>blobs = [(''prompt_repo_20240101_100000.json'', ''old''),
               (''notes.txt'', ''n''),
               (''prompt_repo_20240101_090000.json'', ''garbage'')],
      list_fails = False, download_fails = False, upload_fails = False, calls = []\<rparr>"

definition example_selection :: selection where
  "example_selection =
     \<lparr>prompt_list = JArr [
        JObj [(''name'', JStr ''greeting''), (''content'', JArr [JStr ''a'', JStr ''b''])],
        JObj [(''name'', JStr ''greeting''), (''content'', JArr [JStr ''c''])]],
      prompt_names = [JStr ''greeting'', JStr ''greeting''],
      selected_prompt_name = JStr ''greeting'',
      selected_index = 0,
      initial_content_str = [CHR ''a'', nl, CHR ''b'']\<rparr>"

definition example_prompts :: "json list" where
  "example_prompts =
     [JObj [(''name'', JStr ''greeting''), (''content'', JArr [JStr ''a'', JStr ''b''])],
      JObj [(''name'', JStr ''greeting''), (''content'', JArr [JStr ''c''])]]"

definition example_state :: app_state where
  "example_state = \<lparr>prompt_data = Some example_document, cache = Some (example_document, 0)\<rparr>"

section \<open>Text lemmas\<close>

lemma dropWhile_all: "\<forall>c\<in>set xs. P c \<Longrightarrow> dropWhile P xs = []"
  by simp

lemma strip_ws:
  assumes "\<forall>c\<in>set ws1. py_isspace c" and "\<forall>c\<in>set ws2. py_isspace c"
  shows "strip (ws1 @ t @ ws2) = strip t"
proof -
  have a: "dropWhile py_isspace (ws1 @ t @ ws2) = dropWhile py_isspace (t @ ws2)"
    using assms(1) by (simp add: dropWhile_append2)
  have b: "dropWhile py_isspace (rev (dropWhile py_isspace (t @ ws2)))
         = dropWhile py_isspace (rev (dropWhile py_isspace t))"
  proof (cases "\<forall>c\<in>set t. py_isspace c")
    case True
    have "\<forall>c\<in>set (t @ ws2). py_isspace c" using True assms(2) by auto
    then have e1: "dropWhile py_isspace (t @ ws2) = []" by (rule dropWhile_all)
    have e2: "dropWhile py_isspace t = []" using True by (rule dropWhile_all)
    show ?thesis by (simp only: e1 e2)
  next
    case False
    then obtain x where x: "x \<in> set t" "\<not> py_isspace x" by blast
    have e3: "dropWhile py_isspace (t @ ws2) = dropWhile py_isspace t @ ws2"
      using x by (rule dropWhile_append1)
    have e4: "dropWhile py_isspace (rev ws2 @ rev (dropWhile py_isspace t))
            = dropWhile py_isspace (rev (dropWhile py_isspace t))"
      by (rule dropWhile_append2) (use assms(2) in simp)
    show ?thesis by (simp only: e3 rev_append e4)
  qed
  show ?thesis by (simp only: strip_def a b)
qed

lemma split_nl_ne: "split_nl s \<noteq> []"
  by (induction s) (auto split: list.splits)

lemma join_nl_Cons: "join_nl ((a # w) # ws) = a # join_nl (w # ws)"
  by (cases ws) auto

lemma join_split: "join_nl (split_nl s) = s"
  by (induction s) (auto split: list.splits simp: split_nl_ne join_nl_Cons)

lemma split_append_nl: "split_nl (s @ [nl]) = split_nl s @ [[]]"
  by (induction s) (auto split: list.splits simp: split_nl_ne)

lemma split_line: "nl \<notin> set x \<Longrightarrow> split_nl (x @ nl # r) = x # split_nl r"
  by (induction x) (auto split: list.splits simp: split_nl_ne)

lemma split_noline: "nl \<notin> set x \<Longrightarrow> split_nl x = [x]"
  by (induction x) (auto split: list.splits simp: split_nl_ne)

lemma split_join: "xs \<noteq> [] \<Longrightarrow> \<forall>x\<in>set xs. nl \<notin> set x \<Longrightarrow> split_nl (join_nl xs) = xs"
  by (induction xs rule: join_nl.induct) (auto simp: split_line split_noline)

lemma str_items_map: "str_items (map JStr xs) = Inr xs"
  by (induction xs) (auto simp: bnd_def)

lemma str_join_lines: "str_join (JArr (map JStr xs)) = Inr (join_nl xs)"
  by (simp add: str_join_def py_iter_def bnd_def str_items_map)

section \<open>Content lines and their text form\<close>

text \<open>
  C8, as stated, fails: the empty content comes back as one empty line, and a trailing
  newline of the text is stored as a final empty line.
\<close>

theorem content_round_trip_counterexample:
  "split_nl (join_nl []) \<noteq> [] \<and> split_nl ([CHR ''a'', nl]) \<noteq> split_nl [CHR ''a'']"
  by simp

text \<open>
  C8, amended: a content that is not empty and whose lines hold no newline is recovered
  from its text form by splitting (empty lines included); the empty content comes back
  as one empty line; every text is recovered from its split lines by joining, so a
  trailing newline is kept as a final empty line.
\<close>

theorem content_round_trip:
  "(xs \<noteq> [] \<and> (\<forall>x\<in>set xs. nl \<notin> set x) \<longrightarrow>
      split_nl (join_nl xs) = xs
      \<and> map_sum id split_nl (str_join (JArr (map JStr xs))) = Inr xs)
   \<and> split_nl (join_nl []) = [[]]
   \<and> str_join (JArr (map JStr (split_nl s))) = Inr s
   \<and> split_nl (s @ [nl]) = split_nl s @ [[]]"
  by (simp add: split_join join_split split_append_nl str_join_lines)

theorem content_round_trip_witness:
  "[''a'', [], ''b''] \<noteq> [] \<and> nl \<notin> set ''a'' \<and> nl \<notin> set [] \<and> nl \<notin> set ''b''
   \<and> split_nl (join_nl [''a'', [], ''b'']) = [''a'', [], ''b'']
   \<and> map_sum id split_nl (str_join (JArr (map JStr [''a'', [], ''b'']))) = Inr [''a'', [], ''b'']
   \<and> split_nl (join_nl []) = [[]]
   \<and> str_join (JArr (map JStr (split_nl [CHR ''a'', nl]))) = Inr [CHR ''a'', nl]
   \<and> split_nl ([CHR ''a'', nl] @ [nl]) = split_nl [CHR ''a'', nl] @ [[]]"
  using content_round_trip [of "[''a'', [], ''b'']" "[CHR ''a'', nl]"]
  by simp

section \<open>Edits that change nothing, text that is not JSON, failed uploads\<close>

lemma upload_changes_unchanged:
  "strip edited = strip (initial_content_str sel) \<Longrightarrow>
   upload_changes lib ts b s data sel edited = Inr (b, s, [Info_no_changes], False)"
  by (simp add: upload_changes_def)

text \<open>
  C7: when the edited text and the original joined content are equal after stripping,
  in particular when the edited text is the original with whitespace added at its ends,
  the button reports that nothing changed: no call on the store, no change of state.
\<close>

theorem no_change_no_publish:
  "(strip edited = strip (initial_content_str sel) \<longrightarrow>
      upload_changes lib ts b s data sel edited = Inr (b, s, [Info_no_changes], False))
   \<and> ((\<forall>c\<in>set ws1. py_isspace c) \<and> (\<forall>c\<in>set ws2. py_isspace c) \<longrightarrow>
      upload_changes lib ts b s data sel (ws1 @ initial_content_str sel @ ws2)
        = Inr (b, s, [Info_no_changes], False))"
  using strip_ws [of ws1 ws2 "initial_content_str sel"]
  by (auto simp: upload_changes_unchanged)

theorem no_change_no_publish_witness:
  "strip [CHR '' '', CHR ''a'', nl, CHR ''b'', nl] = strip (initial_content_str example_selection)
   \<and> py_isspace (CHR '' '') \<and> py_isspace nl
   \<and> upload_changes example_lib ''20240101_110000'' example_backend example_state
        example_document example_selection [CHR '' '', CHR ''a'', nl, CHR ''b'', nl]
      = Inr (example_backend, example_state, [Info_no_changes], False)
   \<and> upload_changes example_lib ''20240101_110000'' example_backend example_state
        example_document example_selection
        ([CHR '' ''] @ initial_content_str example_selection @ [nl])
      = Inr (example_backend, example_state, [Info_no_changes], False)"
  using no_change_no_publish [of "[CHR '' '', CHR ''a'', nl, CHR ''b'', nl]" example_selection
      example_lib "''20240101_110000''" example_backend example_state example_document
      "[CHR '' '']" "[nl]"]
  by (simp add: strip_def py_isspace_def example_selection_def)

text \<open>
  C5, as stated, fails: the text \<^verbatim>\<open>NaN\<close> is not valid JSON, yet Python's decoder accepts it,
  so the button uploads it, empties the cache and makes it the session document.
\<close>

theorem raw_replace_counterexample:
  "\<not> begins_json_value ''NaN''
   \<and> loads example_lib ''NaN'' = Inr (JNonFinite NaN)
   \<and> upload_raw_json example_lib ''20240101_110000'' example_backend example_state ''NaN''
       = Inr (example_backend\<lparr>blobs := blobs example_backend
                               @ [(''prompt_repo_20240101_110000.json'', ''NaN'')],
                calls := [UploadBlob ''prompt_repo_20240101_110000.json'' ''NaN'']\<rparr>,
              \<lparr>prompt_data = Some (JNonFinite NaN), cache = None\<rparr>,
              [Success_uploaded ''prompt_repo_20240101_110000.json''], True)"
  by (simp add: begins_json_value_def json_blank_def upload_raw_json_def example_lib_def
      upload_prompt_repo_to_blob_def upload_blob_def snapshot_name_def example_backend_def
      example_state_def example_edited_document_def Let_def)

text \<open>
  C5, amended: a raw text that the decoder rejects with \<^verbatim>\<open>JSONDecodeError\<close> is answered by
  the message for invalid JSON; the store is not called and the session keeps its document
  and its cache. Every text that the decoder accepts is handed to the upload, valid JSON
  or not.
\<close>

theorem raw_replace_malformed:
  "(loads lib edited_raw_json = Inl JSONDecodeError \<longrightarrow>
      upload_raw_json lib ts b s edited_raw_json = Inr (b, s, [Error_invalid_json], False))
   \<and> (loads lib edited_raw_json = Inr d \<longrightarrow>
        (\<exists>b' s' msgs r. upload_raw_json lib ts b s edited_raw_json = Inr (b', s', msgs, r)
           \<and> calls b' = calls b @ [UploadBlob (snapshot_name ts) (dumps lib d 4)]))"
  by (cases "upload_fails b")
     (auto simp: upload_raw_json_def upload_prompt_repo_to_blob_def upload_blob_def Let_def)

theorem raw_replace_malformed_witness:
  "loads example_lib ''{oops'' = Inl JSONDecodeError
   \<and> upload_raw_json example_lib ''20240101_110000'' example_backend example_state ''{oops''
      = Inr (example_backend, example_state, [Error_invalid_json], False)
   \<and> loads example_lib ''new'' = Inr example_edited_document
   \<and> (\<exists>b' s' msgs r.
         upload_raw_json example_lib ''20240101_110000'' example_backend example_state ''new''
           = Inr (b', s', msgs, r)
         \<and> calls b' = calls example_backend
              @ [UploadBlob (snapshot_name ''20240101_110000'')
                   (dumps example_lib example_edited_document 4)])"
proof -
  have h1: "loads example_lib ''{oops'' = Inl JSONDecodeError"
    by (simp add: example_lib_def)
  have h2: "loads example_lib ''new'' = Inr example_edited_document"
    by (simp add: example_lib_def)
  note t1 = raw_replace_malformed [where lib = example_lib
      and edited_raw_json = "''{oops''" and ts = "''20240101_110000''"
      and b = example_backend and s = example_state and d = example_edited_document,
      THEN conjunct1, THEN mp, OF h1]
  note t2 = raw_replace_malformed [where lib = example_lib
      and edited_raw_json = "''new''" and ts = "''20240101_110000''"
      and b = example_backend and s = example_state and d = example_edited_document,
      THEN conjunct2, THEN mp, OF h2]
  show ?thesis
    by (intro conjI h1 h2 t1 t2)
qed

text \<open>
  An exception of the decoder other than \<^verbatim>\<open>JSONDecodeError\<close> is not caught at line 150:
  it ends the run before any call on the store.
\<close>

lemma raw_replace_uncaught:
  "loads lib edited_raw_json = Inl e \<Longrightarrow> e \<noteq> JSONDecodeError \<Longrightarrow>
     upload_raw_json lib ts b s edited_raw_json = Inl e"
  by (simp add: upload_raw_json_def)

lemma upload_fails_result:
  "upload_fails b \<Longrightarrow>
   upload_prompt_repo_to_blob lib ts b d
     = (b\<lparr>calls := calls b @ [UploadBlob (snapshot_name ts) (dumps lib d 4)]\<rparr>,
        [Error_upload_failed], False)"
  by (simp add: upload_prompt_repo_to_blob_def upload_blob_def)

text \<open>
  C4: when the store rejects the write, either button leaves the session document and
  the cache as they were, the store keeps its blobs, and no rerun is requested.
\<close>

theorem publish_failure_no_commit:
  assumes "upload_fails b"
  shows "(upload_changes lib ts b s data sel edited = Inr (b', s', msgs, r) \<longrightarrow>
            s' = s \<and> blobs b' = blobs b \<and> \<not> r)
         \<and> (upload_raw_json lib ts b s raw = Inr (b'', s'', msgs', r') \<longrightarrow>
            s'' = s \<and> blobs b'' = blobs b \<and> \<not> r')
         \<and> (\<forall>d. upload_prompt_repo_to_blob lib ts b d
                = (b\<lparr>calls := calls b @ [UploadBlob (snapshot_name ts) (dumps lib d 4)]\<rparr>,
                   [Error_upload_failed], False))"
  using assms
  by (auto simp: upload_changes_def upload_raw_json_def upload_fails_result bnd_def
      split: if_splits sum.splits option.splits)


theorem publish_failure_no_commit_witness:
  "upload_fails (example_backend\<lparr>upload_fails := True\<rparr>)
   \<and> upload_changes example_lib ''20240101_110000'' (example_backend\<lparr>upload_fails := True\<rparr>)
        example_state example_document example_selection [CHR ''a'', nl, CHR ''b'', nl, CHR ''c'']
      = Inr (example_backend\<lparr>upload_fails := True,
               calls := [UploadBlob ''prompt_repo_20240101_110000.json'' ''new'']\<rparr>,
             example_state, [Error_upload_failed], False)
   \<and> upload_raw_json example_lib ''20240101_110000'' (example_backend\<lparr>upload_fails := True\<rparr>)
        example_state ''new''
      = Inr (example_backend\<lparr>upload_fails := True,
               calls := [UploadBlob ''prompt_repo_20240101_110000.json'' ''new'']\<rparr>,
             example_state, [Error_upload_failed], False)"
proof -
  have h: "upload_fails (example_backend\<lparr>upload_fails := True\<rparr>)"
    by simp
  have edited: "set_prompt_content example_document 0
                  (JArr [JStr ''a'', JStr ''b'', JStr ''c''])
                = Inr example_edited_document"
    by (simp add: set_prompt_content_def example_document_def example_edited_document_def
        bnd_def subscript_key_def subscript_int_def norm_index_def setitem_key_def
        put_key_def put_int_def)
  have run1:
    "upload_changes example_lib ''20240101_110000'' (example_backend\<lparr>upload_fails := True\<rparr>)
        example_state example_document example_selection [CHR ''a'', nl, CHR ''b'', nl, CHR ''c'']
      = Inr (example_backend\<lparr>upload_fails := True,
               calls := [UploadBlob ''prompt_repo_20240101_110000.json'' ''new'']\<rparr>,
             example_state, [Error_upload_failed], False)"
    by (simp add: upload_changes_def edited bnd_def upload_fails_result example_lib_def
        example_selection_def strip_def py_isspace_def snapshot_name_def example_backend_def)
  have run2:
    "upload_raw_json example_lib ''20240101_110000'' (example_backend\<lparr>upload_fails := True\<rparr>)
        example_state ''new''
      = Inr (example_backend\<lparr>upload_fails := True,
               calls := [UploadBlob ''prompt_repo_20240101_110000.json'' ''new'']\<rparr>,
             example_state, [Error_upload_failed], False)"
    by (simp add: upload_raw_json_def upload_fails_result example_lib_def snapshot_name_def
        example_backend_def)
  note t = publish_failure_no_commit [OF h, where lib = example_lib
      and ts = "''20240101_110000''" and s = example_state and data = example_document
      and sel = example_selection and edited = "[CHR ''a'', nl, CHR ''b'', nl, CHR ''c'']"
      and raw = "''new''" and s' = example_state and s'' = example_state
      and b' = "example_backend\<lparr>upload_fails := True,
               calls := [UploadBlob ''prompt_repo_20240101_110000.json'' ''new'']\<rparr>"
      and b'' = "example_backend\<lparr>upload_fails := True,
               calls := [UploadBlob ''prompt_repo_20240101_110000.json'' ''new'']\<rparr>"
      and msgs = "[Error_upload_failed]" and msgs' = "[Error_upload_failed]"
      and r = False and r' = False]
  from h run1 run2 t show ?thesis
    by blast
qed

section \<open>Loading: which snapshot is read\<close>

lemma max_by_name_mem: "max_by_name x xs \<in> set (x # xs)"
  by (induction xs arbitrary: x) auto

lemma max_by_name_fold: "fst (max_by_name x xs) = fold max (map fst xs) (fst x)"
  by (induction xs arbitrary: x) (auto simp: max_def)

lemma max_by_name_fst: "fst (max_by_name x xs) = Max (fst ` set (x # xs))"
proof -
  have "Max (fst ` set (x # xs)) = Max (set (fst x # map fst xs))" by simp
  also have "\<dots> = fold max (map fst xs) (fst x)" by (rule Max.set_eq_fold)
  finally show ?thesis by (simp add: max_by_name_fold)
qed

lemma reserved_keys_empty:
  "(filter (\<lambda>kv. prefix reserved_prefix (fst kv)) (blobs b) = []) = (reserved_keys b = {})"
  by (force simp: reserved_keys_def filter_empty_conv)

lemma reserved_keys_filter:
  "reserved_keys b = fst ` set (filter (\<lambda>kv. prefix reserved_prefix (fst kv)) (blobs b))"
  by (auto simp: reserved_keys_def)

lemma download_latest_some:
  assumes nf: "\<not> list_fails b" and d: "distinct (map fst (blobs b))"
      and ne: "reserved_keys b \<noteq> {}"
  shows "\<exists>bytes. map_of (blobs b) (Max (reserved_keys b)) = Some bytes \<and>
           download_latest_prompt_repo_from_blob lib b
             = (b\<lparr>calls := calls b @ [ListBlobs reserved_prefix,
                                        DownloadBlob (Max (reserved_keys b))]\<rparr>,
                latest_result lib b bytes)"
proof -
  let ?fl = "filter (\<lambda>kv. prefix reserved_prefix (fst kv)) (blobs b)"
  from ne have "?fl \<noteq> []" by (simp add: reserved_keys_empty)
  then obtain x xs where fl: "?fl = x # xs" by (cases ?fl) auto
  let ?m = "max_by_name x xs"
  have m_in: "?m \<in> set (blobs b)"
    using max_by_name_mem [of x xs] filter_is_subset [of "\<lambda>kv. prefix reserved_prefix (fst kv)" "blobs b"]
    by (auto simp only: fl)
  have m_key: "fst ?m = Max (reserved_keys b)"
    by (simp only: max_by_name_fst reserved_keys_filter fl)
  have look: "map_of (blobs b) (fst ?m) = Some (snd ?m)"
    using d m_in by simp
  have "download_latest_prompt_repo_from_blob lib b
          = (b\<lparr>calls := calls b @ [ListBlobs reserved_prefix, DownloadBlob (fst ?m)]\<rparr>,
             latest_result lib b (snd ?m))"
    using nf look
    by (simp add: download_latest_prompt_repo_from_blob_def list_blobs_def fl download_blob_def
        latest_result_def m_key Let_def split: option.splits sum.splits)
  with look m_key show ?thesis by auto
qed

lemma download_latest_none:
  assumes "\<not> list_fails b" and "reserved_keys b = {}"
  shows "download_latest_prompt_repo_from_blob lib b
           = (b\<lparr>calls := calls b @ [ListBlobs reserved_prefix]\<rparr>,
              [Warning_no_repository], default_document)"
proof -
  have "filter (\<lambda>kv. prefix reserved_prefix (fst kv)) (blobs b) = []"
    using assms(2) by (simp only: reserved_keys_empty)
  then show ?thesis
    using assms(1) by (simp add: download_latest_prompt_repo_from_blob_def list_blobs_def)
qed

lemma download_latest_list_fails:
  assumes "list_fails b"
  shows "download_latest_prompt_repo_from_blob lib b
           = (b\<lparr>calls := calls b @ [ListBlobs reserved_prefix]\<rparr>,
              [Error_load_failed], empty_apps_document)"
  using assms
  by (simp add: download_latest_prompt_repo_from_blob_def list_blobs_def)

lemma reserved_keys_cong:
  "set (blobs b2) = set (blobs b) \<Longrightarrow> reserved_keys b2 = reserved_keys b"
  by (simp add: reserved_keys_filter)

lemma map_of_set_cong:
  "set xs = set ys \<Longrightarrow> distinct (map fst xs) \<Longrightarrow> distinct (map fst ys) \<Longrightarrow> map_of xs = map_of ys"
  by (rule ext) (metis map_of_eq_Some_iff not_Some_eq)

text \<open>
  C2: when the listing succeeds and the store holds at least one name with the reserved
  prefix, the function downloads exactly the greatest such name and returns the parse of
  its bytes; the result is the same for any other listing order of the same blobs.
\<close>

theorem load_latest_selects_maximum:
  assumes "distinct (map fst (blobs b))" and "\<not> list_fails b" and "reserved_keys b \<noteq> {}"
  shows "calls (fst (download_latest_prompt_repo_from_blob lib b))
           = calls b @ [ListBlobs reserved_prefix, DownloadBlob (Max (reserved_keys b))]
         \<and> (\<not> download_fails b \<longrightarrow>
              (\<exists>bytes. map_of (blobs b) (Max (reserved_keys b)) = Some bytes \<and>
                 snd (snd (download_latest_prompt_repo_from_blob lib b))
                   = (case loads lib bytes of Inr d \<Rightarrow> d | Inl e \<Rightarrow> empty_apps_document)))
         \<and> (\<forall>b2. set (blobs b2) = set (blobs b) \<and> distinct (map fst (blobs b2))
                \<and> \<not> list_fails b2 \<and> download_fails b2 = download_fails b \<longrightarrow>
              snd (download_latest_prompt_repo_from_blob lib b2)
                = snd (download_latest_prompt_repo_from_blob lib b))"
proof -
  from download_latest_some [OF assms(2,1,3), of lib]
  obtain bytes where b: "map_of (blobs b) (Max (reserved_keys b)) = Some bytes"
    and r: "download_latest_prompt_repo_from_blob lib b
             = (b\<lparr>calls := calls b @ [ListBlobs reserved_prefix,
                                        DownloadBlob (Max (reserved_keys b))]\<rparr>,
                latest_result lib b bytes)"
    by blast
  have 1: "calls (fst (download_latest_prompt_repo_from_blob lib b))
           = calls b @ [ListBlobs reserved_prefix, DownloadBlob (Max (reserved_keys b))]"
    by (simp add: r)
  have 2: "\<not> download_fails b \<longrightarrow>
              (\<exists>bytes. map_of (blobs b) (Max (reserved_keys b)) = Some bytes \<and>
                 snd (snd (download_latest_prompt_repo_from_blob lib b))
                   = (case loads lib bytes of Inr d \<Rightarrow> d | Inl e \<Rightarrow> empty_apps_document))"
    using b by (auto simp: r latest_result_def split: sum.splits)
  have 3: "snd (download_latest_prompt_repo_from_blob lib b2)
                = snd (download_latest_prompt_repo_from_blob lib b)"
    if h: "set (blobs b2) = set (blobs b)" "distinct (map fst (blobs b2))"
       "\<not> list_fails b2" "download_fails b2 = download_fails b" for b2
  proof -
    have k: "reserved_keys b2 = reserved_keys b" using h(1) by (rule reserved_keys_cong)
    have m: "map_of (blobs b2) = map_of (blobs b)"
      using h(1,2) assms(1) by (rule map_of_set_cong)
    from download_latest_some [OF h(3,2), of lib] assms(3) k m b
    have "download_latest_prompt_repo_from_blob lib b2
             = (b2\<lparr>calls := calls b2 @ [ListBlobs reserved_prefix,
                                        DownloadBlob (Max (reserved_keys b))]\<rparr>,
                latest_result lib b2 bytes)"
      by auto
    moreover have "latest_result lib b2 bytes = latest_result lib b bytes"
      by (simp add: latest_result_def k h(4) cong: sum.case_cong)
    ultimately show ?thesis by (simp add: r)
  qed
  from 1 2 3 show ?thesis by blast
qed

theorem load_latest_selects_maximum_witness:
  "distinct (map fst (blobs example_backend)) \<and> \<not> list_fails example_backend
   \<and> reserved_keys example_backend \<noteq> {}
   \<and> Max (reserved_keys example_backend) = ''prompt_repo_20240101_100000.json''
   \<and> download_latest_prompt_repo_from_blob example_lib example_backend
       = (example_backend\<lparr>calls := [ListBlobs ''prompt_repo_'',
                                      DownloadBlob ''prompt_repo_20240101_100000.json'']\<rparr>,
          [Info_loading_latest ''prompt_repo_20240101_100000.json''], example_document)
   \<and> snd (download_latest_prompt_repo_from_blob example_lib
             (example_backend\<lparr>blobs := rev (blobs example_backend)\<rparr>))
       = snd (download_latest_prompt_repo_from_blob example_lib example_backend)"
proof -
  have h1: "distinct (map fst (blobs example_backend))"
    by (simp add: example_backend_def)
  have h2: "\<not> list_fails example_backend"
    by (simp add: example_backend_def)
  have m: "Max (reserved_keys example_backend) = ''prompt_repo_20240101_100000.json''"
    by (simp add: reserved_keys_def example_backend_def reserved_prefix_def)
  have h3: "reserved_keys example_backend \<noteq> {}"
    by (simp add: reserved_keys_def example_backend_def reserved_prefix_def)
  have run: "download_latest_prompt_repo_from_blob example_lib example_backend
       = (example_backend\<lparr>calls := [ListBlobs ''prompt_repo_'',
                                      DownloadBlob ''prompt_repo_20240101_100000.json'']\<rparr>,
          [Info_loading_latest ''prompt_repo_20240101_100000.json''], example_document)"
    by (simp add: download_latest_prompt_repo_from_blob_def list_blobs_def download_blob_def
        example_backend_def example_lib_def reserved_prefix_def Let_def)
  let ?b2 = "example_backend\<lparr>blobs := rev (blobs example_backend)\<rparr>"
  have p: "set (blobs ?b2) = set (blobs example_backend) \<and> distinct (map fst (blobs ?b2))
           \<and> \<not> list_fails ?b2 \<and> download_fails ?b2 = download_fails example_backend"
    using h1 h2 by (simp add: rev_map [symmetric])
  note t = load_latest_selects_maximum [OF h1 h2 h3, of example_lib]
  note t3 = t [THEN conjunct2, THEN conjunct2, rule_format, of ?b2]
  have e: "snd (download_latest_prompt_repo_from_blob example_lib ?b2)
       = snd (download_latest_prompt_repo_from_blob example_lib example_backend)"
    by (rule t3 [OF p])
  show ?thesis
    by (intro conjI h1 h2 h3 m run e)
qed

text \<open>
  C3: when the listing succeeds and no name has the reserved prefix, the function
  returns the default document after the one listing call; the store keeps its blobs, also
  when a fresh session loads its document this way.
\<close>

theorem load_latest_default:
  assumes "\<not> list_fails b" and "reserved_keys b = {}"
  shows "download_latest_prompt_repo_from_blob lib b
           = (b\<lparr>calls := calls b @ [ListBlobs reserved_prefix]\<rparr>,
              [Warning_no_repository],
              JObj [(''APPS'', JArr [JObj [(''name'', JStr ''mmx''), (''prompts'', JArr [])]])])
         \<and> blobs (fst (download_latest_prompt_repo_from_blob lib b)) = blobs b
         \<and> blobs (fst (current_document lib now b \<lparr>prompt_data = None, cache = None\<rparr>))
             = blobs b
         \<and> snd (snd (snd (current_document lib now b \<lparr>prompt_data = None, cache = None\<rparr>)))
             = default_document"
  using assms
  by (simp add: download_latest_none current_document_def cached_download_def
      default_document_def)

theorem load_latest_default_witness:
  "\<not> list_fails (example_backend\<lparr>blobs := [(''notes.txt'', ''n'')]\<rparr>)
   \<and> reserved_keys (example_backend\<lparr>blobs := [(''notes.txt'', ''n'')]\<rparr>) = {}
   \<and> download_latest_prompt_repo_from_blob example_lib
        (example_backend\<lparr>blobs := [(''notes.txt'', ''n'')]\<rparr>)
       = (example_backend\<lparr>blobs := [(''notes.txt'', ''n'')],
                            calls := [ListBlobs ''prompt_repo_'']\<rparr>,
          [Warning_no_repository],
          JObj [(''APPS'', JArr [JObj [(''name'', JStr ''mmx''), (''prompts'', JArr [])]])])"
proof -
  have h1: "\<not> list_fails (example_backend\<lparr>blobs := [(''notes.txt'', ''n'')]\<rparr>)"
    by (simp add: example_backend_def)
  have h2: "reserved_keys (example_backend\<lparr>blobs := [(''notes.txt'', ''n'')]\<rparr>) = {}"
    by (simp add: reserved_keys_def reserved_prefix_def)
  from load_latest_default [OF h1 h2, of example_lib 0] h1 h2 show ?thesis
    by (simp add: example_backend_def reserved_prefix_def)
qed

text \<open>
  C6: when the listing fails, or the download of the latest snapshot fails, or its bytes
  do not parse, the function returns the document with an empty list of apps and shows
  the load error; that document differs from the default one. The function is total: it
  returns a document in every case.
\<close>

theorem load_latest_degrades:
  assumes "distinct (map fst (blobs b))"
      and "list_fails b \<or>
           (reserved_keys b \<noteq> {} \<and>
              (download_fails b \<or>
               (\<exists>bytes. map_of (blobs b) (Max (reserved_keys b)) = Some bytes
                         \<and> (\<exists>e. loads lib bytes = Inl e))))"
  shows "snd (snd (download_latest_prompt_repo_from_blob lib b)) = JObj [(''APPS'', JArr [])]
         \<and> Error_load_failed \<in> set (fst (snd (download_latest_prompt_repo_from_blob lib b)))
         \<and> blobs (fst (download_latest_prompt_repo_from_blob lib b)) = blobs b
         \<and> JObj [(''APPS'', JArr [])] \<noteq> default_document"
proof (cases "list_fails b")
  case True
  then show ?thesis
    by (simp add: download_latest_list_fails empty_apps_document_def default_document_def)
next
  case False
  with assms(2) have ne: "reserved_keys b \<noteq> {}"
    and c: "download_fails b \<or>
               (\<exists>bytes. map_of (blobs b) (Max (reserved_keys b)) = Some bytes
                         \<and> (\<exists>e. loads lib bytes = Inl e))"
    by auto
  from download_latest_some [OF False assms(1) ne, of lib] c show ?thesis
    by (auto simp: latest_result_def empty_apps_document_def default_document_def)
qed

theorem load_latest_degrades_witness:
  "distinct (map fst (blobs (example_backend\<lparr>blobs :=
       [(''prompt_repo_20240101_090000.json'', ''garbage'')]\<rparr>)))
   \<and> map_of [(''prompt_repo_20240101_090000.json'', ''garbage'')]
         (Max (reserved_keys (example_backend\<lparr>blobs :=
            [(''prompt_repo_20240101_090000.json'', ''garbage'')]\<rparr>))) = Some ''garbage''
   \<and> loads example_lib ''garbage'' = Inl JSONDecodeError
   \<and> download_latest_prompt_repo_from_blob example_lib
        (example_backend\<lparr>blobs := [(''prompt_repo_20240101_090000.json'', ''garbage'')]\<rparr>)
       = (example_backend\<lparr>blobs := [(''prompt_repo_20240101_090000.json'', ''garbage'')],
            calls := [ListBlobs ''prompt_repo_'',
                      DownloadBlob ''prompt_repo_20240101_090000.json'']\<rparr>,
          [Info_loading_latest ''prompt_repo_20240101_090000.json'', Error_load_failed],
          JObj [(''APPS'', JArr [])])"
proof -
  let ?b = "example_backend\<lparr>blobs := [(''prompt_repo_20240101_090000.json'', ''garbage'')]\<rparr>"
  have h1: "distinct (map fst (blobs ?b))"
    by simp
  have k: "Max (reserved_keys ?b) = ''prompt_repo_20240101_090000.json''"
    by (simp add: reserved_keys_def reserved_prefix_def)
  have l: "loads example_lib ''garbage'' = Inl JSONDecodeError"
    by (simp add: example_lib_def)
  have h2: "list_fails ?b \<or>
           (reserved_keys ?b \<noteq> {} \<and>
              (download_fails ?b \<or>
               (\<exists>bytes. map_of (blobs ?b) (Max (reserved_keys ?b)) = Some bytes
                         \<and> (\<exists>e. loads example_lib bytes = Inl e))))"
    using l by (simp add: k) (simp add: reserved_keys_def reserved_prefix_def)
  have run: "download_latest_prompt_repo_from_blob example_lib ?b
       = (example_backend\<lparr>blobs := [(''prompt_repo_20240101_090000.json'', ''garbage'')],
            calls := [ListBlobs ''prompt_repo_'',
                      DownloadBlob ''prompt_repo_20240101_090000.json'']\<rparr>,
          [Info_loading_latest ''prompt_repo_20240101_090000.json'', Error_load_failed],
          JObj [(''APPS'', JArr [])])"
    by (simp add: download_latest_prompt_repo_from_blob_def list_blobs_def download_blob_def
        example_backend_def example_lib_def reserved_prefix_def empty_apps_document_def)
  from load_latest_degrades [OF h1 h2] h1 k l run show ?thesis
    by simp
qed

section \<open>A successful edit is what the next read sees\<close>

lemma upload_ok_result:
  "\<not> upload_fails b \<Longrightarrow>
   upload_prompt_repo_to_blob lib ts b d
     = (b\<lparr>blobs := AList.update (snapshot_name ts) (dumps lib d 4) (blobs b),
          calls := calls b @ [UploadBlob (snapshot_name ts) (dumps lib d 4)]\<rparr>,
        [Success_uploaded (snapshot_name ts)], True)"
  by (simp add: upload_prompt_repo_to_blob_def upload_blob_def Let_def)

lemma upload_changes_rerun:
  assumes "upload_changes lib ts b s data sel edited = Inr (b', s', msgs, True)"
  shows "\<exists>cand. set_prompt_content data (selected_index sel) (JArr (map JStr (split_nl edited)))
                  = Inr cand
           \<and> \<not> upload_fails b
           \<and> b' = b\<lparr>blobs := AList.update (snapshot_name ts) (dumps lib cand 4) (blobs b),
                     calls := calls b @ [UploadBlob (snapshot_name ts) (dumps lib cand 4)]\<rparr>
           \<and> s' = s\<lparr>prompt_data := Some cand, cache := None\<rparr>"
proof (cases "upload_fails b")
  case True
  with assms show ?thesis
    by (auto simp: upload_changes_def bnd_def upload_fails_result split: if_splits sum.splits)
next
  case False
  with assms show ?thesis
    by (auto simp: upload_changes_def bnd_def upload_ok_result split: if_splits sum.splits)
qed

lemma snapshot_name_reserved: "prefix reserved_prefix (snapshot_name ts)"
  by (simp add: reserved_prefix_def snapshot_name_def)

lemma reserved_keys_update:
  "reserved_keys (b\<lparr>blobs := AList.update (snapshot_name ts) bytes (blobs b), calls := c\<rparr>)
     = insert (snapshot_name ts) (reserved_keys b)"
  using snapshot_name_reserved [of ts]
  by (auto simp: reserved_keys_def AList.dom_update)

lemma download_after_upload:
  assumes d: "distinct (map fst (blobs b))"
      and top: "\<forall>k\<in>reserved_keys b. k \<le> snapshot_name ts"
      and ok: "\<not> list_fails b" "\<not> download_fails b"
      and l: "loads lib bytes = Inr doc"
      and b': "b' = b\<lparr>blobs := AList.update (snapshot_name ts) bytes (blobs b), calls := c\<rparr>"
  shows "snd (download_latest_prompt_repo_from_blob lib b')
           = ([Info_loading_latest (snapshot_name ts)], doc)"
proof -
  have k: "reserved_keys b' = insert (snapshot_name ts) (reserved_keys b)"
    by (simp only: b' reserved_keys_update)
  have fin: "finite (reserved_keys b)" by (simp add: reserved_keys_def)
  have mx: "Max (reserved_keys b') = snapshot_name ts"
    unfolding k using top fin by (intro Max_eqI) auto
  have d': "distinct (map fst (blobs b'))"
    using d by (simp add: b' AList.distinct_update)
  have ne: "reserved_keys b' \<noteq> {}" by (simp add: k)
  have nf: "\<not> list_fails b'" using ok by (simp add: b')
  have look: "map_of (blobs b') (snapshot_name ts) = Some bytes"
    by (simp add: b' AList.update_conv')
  from download_latest_some [OF nf d' ne, of lib] look mx
  have "snd (download_latest_prompt_repo_from_blob lib b') = latest_result lib b' bytes"
    by auto
  then show ?thesis
    using ok l mx by (simp add: latest_result_def b')
qed

text \<open>
  C1: when the button \<^verbatim>\<open>Upload Changes to Azure\<close> reaches the rerun, that is when the edit
  produced a candidate and the upload succeeded, the session document is the candidate, the
  cache is empty and the store holds the candidate's text under the new name. The next
  read of the session document returns the candidate without a call on the store, and the
  next call of the cached download does not answer from the cache: it loads from the
  store. That load returns the candidate when the new name is not below any stored
  snapshot name (names are timestamps), the JSON library reads back what it wrote, and
  the two read calls succeed.
\<close>

theorem publish_then_read_is_fresh:
  assumes "upload_changes lib ts b s data sel edited = Inr (b', s', msgs, True)"
  shows "\<exists>cand. set_prompt_content data (selected_index sel)
                   (JArr (map JStr (split_nl edited))) = Inr cand
           \<and> prompt_data s' = Some cand \<and> cache s' = None
           \<and> map_of (blobs b') (snapshot_name ts) = Some (dumps lib cand 4)
           \<and> (\<forall>now bb. current_document lib now bb s' = (bb, s', [], cand))
           \<and> (\<forall>now. cached_download lib now b' (cache s')
                  = (case download_latest_prompt_repo_from_blob lib b' of
                       (b2, m, d) \<Rightarrow> (b2, Some (d, now), m, d)))
           \<and> (distinct (map fst (blobs b)) \<and> (\<forall>k\<in>reserved_keys b. k \<le> snapshot_name ts)
                \<and> loads lib (dumps lib cand 4) = Inr cand
                \<and> \<not> list_fails b \<and> \<not> download_fails b \<longrightarrow>
              (\<forall>now. snd (snd (cached_download lib now b' (cache s')))
                        = ([Info_loading_latest (snapshot_name ts)], cand)))"
proof -
  from upload_changes_rerun [OF assms] obtain cand where
    c: "set_prompt_content data (selected_index sel) (JArr (map JStr (split_nl edited)))
          = Inr cand"
    and b': "b' = b\<lparr>blobs := AList.update (snapshot_name ts) (dumps lib cand 4) (blobs b),
                     calls := calls b @ [UploadBlob (snapshot_name ts) (dumps lib cand 4)]\<rparr>"
    and s': "s' = s\<lparr>prompt_data := Some cand, cache := None\<rparr>"
    by blast
  have 1: "prompt_data s' = Some cand \<and> cache s' = None" by (simp add: s')
  have 2: "map_of (blobs b') (snapshot_name ts) = Some (dumps lib cand 4)"
    by (simp add: b' AList.update_conv')
  have 3: "\<forall>now bb. current_document lib now bb s' = (bb, s', [], cand)"
    by (simp add: current_document_def s')
  have 4: "\<forall>now. cached_download lib now b' (cache s')
                  = (case download_latest_prompt_repo_from_blob lib b' of
                       (b2, m, d) \<Rightarrow> (b2, Some (d, now), m, d))"
    by (simp add: cached_download_def s')
  have 5: "\<forall>now. snd (snd (cached_download lib now b' (cache s')))
                        = ([Info_loading_latest (snapshot_name ts)], cand)"
    if h: "distinct (map fst (blobs b))" "\<forall>k\<in>reserved_keys b. k \<le> snapshot_name ts"
          "loads lib (dumps lib cand 4) = Inr cand" "\<not> list_fails b" "\<not> download_fails b"
  proof -
    from download_after_upload [OF h(1,2,4,5,3) b']
    have "snd (download_latest_prompt_repo_from_blob lib b')
           = ([Info_loading_latest (snapshot_name ts)], cand)" .
    then show ?thesis
      by (auto simp: 4 split: prod.splits)
  qed
  from c 1 2 3 4 5 show ?thesis by blast
qed


theorem publish_then_read_is_fresh_witness:
  "upload_changes example_lib ''20240101_110000'' example_backend example_state
      example_document example_selection [CHR ''a'', nl, CHR ''b'', nl, CHR ''c'']
     = Inr (example_backend\<lparr>blobs := blobs example_backend
                               @ [(''prompt_repo_20240101_110000.json'', ''new'')],
              calls := [UploadBlob ''prompt_repo_20240101_110000.json'' ''new'']\<rparr>,
            \<lparr>prompt_data = Some example_edited_document, cache = None\<rparr>,
            [Success_uploaded ''prompt_repo_20240101_110000.json''], True)
   \<and> current_document example_lib 10 example_backend
        \<lparr>prompt_data = Some example_edited_document, cache = None\<rparr>
       = (example_backend, \<lparr>prompt_data = Some example_edited_document, cache = None\<rparr>, [],
          example_edited_document)
   \<and> snd (snd (cached_download example_lib 10
        (example_backend\<lparr>blobs := blobs example_backend
                               @ [(''prompt_repo_20240101_110000.json'', ''new'')],
              calls := [UploadBlob ''prompt_repo_20240101_110000.json'' ''new'']\<rparr>)
        (cache \<lparr>prompt_data = Some example_edited_document, cache = None\<rparr>)))
       = ([Info_loading_latest (snapshot_name ''20240101_110000'')], example_edited_document)"
proof -
  let ?b' = "example_backend\<lparr>blobs := blobs example_backend
                               @ [(''prompt_repo_20240101_110000.json'', ''new'')],
              calls := [UploadBlob ''prompt_repo_20240101_110000.json'' ''new'']\<rparr>"
  let ?s' = "\<lparr>prompt_data = Some example_edited_document, cache = None\<rparr>"
  have edited: "set_prompt_content example_document 0
                  (JArr [JStr ''a'', JStr ''b'', JStr ''c''])
                = Inr example_edited_document"
    by (simp add: set_prompt_content_def example_document_def example_edited_document_def
        bnd_def subscript_key_def subscript_int_def norm_index_def setitem_key_def
        put_key_def put_int_def)
  have run: "upload_changes example_lib ''20240101_110000'' example_backend example_state
      example_document example_selection [CHR ''a'', nl, CHR ''b'', nl, CHR ''c'']
     = Inr (?b', ?s', [Success_uploaded ''prompt_repo_20240101_110000.json''], True)"
    by (simp add: upload_changes_def edited bnd_def upload_ok_result example_lib_def
        example_selection_def strip_def py_isspace_def snapshot_name_def example_backend_def
        example_state_def)
  from publish_then_read_is_fresh [OF run] obtain cand where
    c: "set_prompt_content example_document (selected_index example_selection)
          (JArr (map JStr (split_nl [CHR ''a'', nl, CHR ''b'', nl, CHR ''c'']))) = Inr cand"
    and cur: "\<forall>now bb. current_document example_lib now bb ?s' = (bb, ?s', [], cand)"
    and imp: "distinct (map fst (blobs example_backend))
                \<and> (\<forall>k\<in>reserved_keys example_backend. k \<le> snapshot_name ''20240101_110000'')
                \<and> loads example_lib (dumps example_lib cand 4) = Inr cand
                \<and> \<not> list_fails example_backend \<and> \<not> download_fails example_backend \<longrightarrow>
              (\<forall>now. snd (snd (cached_download example_lib now ?b' (cache ?s')))
                        = ([Info_loading_latest (snapshot_name ''20240101_110000'')], cand))"
    by (elim exE conjE)
  have ce: "cand = example_edited_document"
    using c edited by (simp add: example_selection_def)
  have prem: "distinct (map fst (blobs example_backend))
                \<and> (\<forall>k\<in>reserved_keys example_backend. k \<le> snapshot_name ''20240101_110000'')
                \<and> loads example_lib (dumps example_lib example_edited_document 4)
                    = Inr example_edited_document
                \<and> \<not> list_fails example_backend \<and> \<not> download_fails example_backend"
    by (simp add: example_backend_def reserved_keys_def reserved_prefix_def snapshot_name_def
        example_lib_def)
  from imp [unfolded ce] prem
  have fresh: "snd (snd (cached_download example_lib 10 ?b' (cache ?s')))
                 = ([Info_loading_latest (snapshot_name ''20240101_110000'')],
                    example_edited_document)"
    by blast
  from cur [unfolded ce]
  have held: "current_document example_lib 10 example_backend ?s'
                = (example_backend, ?s', [], example_edited_document)"
    by blast
  show ?thesis
    by (intro conjI run held fresh)
qed

section \<open>Which prompt a selection reads and an edit writes\<close>

lemma rich_eq_refl: "rich_eq x x"
  by (simp add: rich_eq_def)

lemma list_index_None: "list_index xs x = None \<Longrightarrow> y \<in> set xs \<Longrightarrow> \<not> rich_eq y x"
  by (induction xs) (auto split: if_splits)

lemma list_index_Some:
  "list_index xs x = Some j \<Longrightarrow>
     j < length xs \<and> rich_eq (xs ! j) x \<and> (\<forall>i<j. \<not> rich_eq (xs ! i) x)"
proof (induction xs arbitrary: j)
  case Nil
  then show ?case by simp
next
  case (Cons y ys)
  show ?case
  proof (cases "rich_eq y x")
    case True
    with Cons.prems show ?thesis by simp
  next
    case False
    with Cons.prems obtain j' where j: "list_index ys x = Some j'" "j = Suc j'"
      by auto
    from Cons.IH [OF j(1)] False j(2) show ?thesis
      by (auto simp: less_Suc_eq_0_disj)
  qed
qed

lemma list_index_first:
  assumes "k < length xs"
  shows "\<exists>j\<le>k. list_index xs (xs ! k) = Some j"
proof (cases "list_index xs (xs ! k)")
  case None
  from list_index_None [OF None, of "xs ! k"] assms rich_eq_refl show ?thesis by auto
next
  case (Some j)
  from list_index_Some [OF Some] rich_eq_refl [of "xs ! k"] have "\<not> k < j" by blast
  with Some show ?thesis by auto
qed

lemma prompt_names_from_shape:
  "prompt_names_from i items = Inr names \<Longrightarrow>
     length names = length items \<and> (\<forall>p\<in>set items. \<exists>kvs. p = JObj kvs)"
  by (induction items arbitrary: i names)
     (auto simp: bnd_def dict_get_def split: sum.splits json.splits)

lemma py_iter_dicts:
  "py_iter pl = Inr items \<Longrightarrow> items \<noteq> [] \<Longrightarrow> \<forall>p\<in>set items. \<exists>kvs. p = JObj kvs \<Longrightarrow>
     pl = JArr items"
  by (cases pl; cases items) (auto simp: py_iter_def)

lemma first_app_prompts_shape:
  "first_app_prompts data = Inr pl \<Longrightarrow>
     \<exists>dk apps ak. data = JObj dk \<and> map_of dk ''APPS'' = Some apps
        \<and> subscript_int apps 0 = Inr (JObj ak)
        \<and> pl = (case map_of ak ''prompts'' of Some v \<Rightarrow> v | None \<Rightarrow> JArr [])"
  by (auto simp: first_app_prompts_def bnd_def subscript_key_def dict_get_def
      split: json.splits option.splits sum.splits)

lemma subscript0_obj:
  "subscript_int apps 0 = Inr (JObj ak) \<Longrightarrow> \<exists>xs. apps = JArr xs \<and> xs \<noteq> [] \<and> xs ! 0 = JObj ak"
  by (auto simp: subscript_int_def norm_index_def split: json.splits option.splits if_splits)

lemma norm_index_nat: "i < n \<Longrightarrow> norm_index n (int i) = Some i"
  by (simp add: norm_index_def)

lemma set_prompt_content_prompts:
  assumes f: "first_app_prompts data = Inr (JArr ps)" and ne: "ps \<noteq> []"
      and i: "i < length ps" and p: "ps ! i = JObj kvs"
  shows "\<exists>cand. set_prompt_content data (int i) v = Inr cand
           \<and> first_app_prompts cand
               = Inr (JArr (ps[i := JObj (AList.update ''content'' v kvs)]))"
proof -
  from first_app_prompts_shape [OF f] obtain dk apps ak where
    d: "data = JObj dk" and a: "map_of dk ''APPS'' = Some apps"
    and s0: "subscript_int apps 0 = Inr (JObj ak)"
    and pl: "JArr ps = (case map_of ak ''prompts'' of Some v \<Rightarrow> v | None \<Rightarrow> JArr [])"
    by blast
  from subscript0_obj [OF s0] obtain xs where
    xs: "apps = JArr xs" "xs \<noteq> []" "xs ! 0 = JObj ak"
    by blast
  from pl ne have pr: "map_of ak ''prompts'' = Some (JArr ps)"
    by (auto split: option.splits)
  let ?p' = "JObj (AList.update ''content'' v kvs)"
  let ?cand = "JObj (AList.update ''APPS''
                 (JArr (xs[0 := JObj (AList.update ''prompts'' (JArr (ps[i := ?p'])) ak)])) dk)"
  have 1: "set_prompt_content data (int i) v = Inr ?cand"
    using d a xs pr i p
    by (simp add: set_prompt_content_def bnd_def subscript_key_def subscript_int_def
        norm_index_def setitem_key_def put_key_def put_int_def)
  have 2: "first_app_prompts ?cand = Inr (JArr (ps[i := ?p']))"
    using xs
    by (simp add: first_app_prompts_def bnd_def subscript_key_def subscript_int_def
        norm_index_def dict_get_def AList.update_conv')
  from 1 2 show ?thesis by blast
qed

lemma select_prompt_Inr:
  assumes "select_prompt data pick = Inr (msgs, sel)"
  shows "\<exists>items. first_app_prompts data = Inr (prompt_list sel)
           \<and> py_iter (prompt_list sel) = Inr items
           \<and> prompt_names_from 0 items = Inr (prompt_names sel)
           \<and> selected_prompt_name sel = selectbox (prompt_names sel) pick
           \<and> msgs = (if prompt_names sel = [] then [Warning_no_prompts] else [])
           \<and> (if truthy (selected_prompt_name sel)
               then \<exists>j. list_index (prompt_names sel) (selected_prompt_name sel) = Some j
                        \<and> selected_index sel = int j
                        \<and> (\<exists>p c. subscript_int (prompt_list sel) (int j) = Inr p
                               \<and> dict_get p ''content'' (JArr []) = Inr c
                               \<and> str_join c = Inr (initial_content_str sel))
               else selected_index sel = - 1 \<and> initial_content_str sel = [])"
  using assms
  by (auto simp: select_prompt_def bnd_def Let_def split: sum.splits option.splits if_splits)


lemma select_prompt_resolved:
  assumes sp: "select_prompt data pick = Inr (msgs, sel)"
      and k: "pick < length (prompt_names sel)"
      and t: "truthy (prompt_names sel ! pick)"
  shows "\<exists>ps i kvs c. prompt_list sel = JArr ps \<and> first_app_prompts data = Inr (JArr ps)
           \<and> length ps = length (prompt_names sel) \<and> i \<le> pick
           \<and> selected_index sel = int i
           \<and> rich_eq (prompt_names sel ! i) (prompt_names sel ! pick)
           \<and> (\<forall>j<i. \<not> rich_eq (prompt_names sel ! j) (prompt_names sel ! pick))
           \<and> ps ! i = JObj kvs
           \<and> dict_get (ps ! i) ''content'' (JArr []) = Inr c
           \<and> str_join c = Inr (initial_content_str sel)"
proof -
  let ?names = "prompt_names sel"
  from select_prompt_Inr [OF sp] obtain items where
    f: "first_app_prompts data = Inr (prompt_list sel)"
    and it: "py_iter (prompt_list sel) = Inr items"
    and nm: "prompt_names_from 0 items = Inr ?names"
    and sn: "selected_prompt_name sel = selectbox ?names pick"
    and res: "if truthy (selected_prompt_name sel)
               then \<exists>j. list_index ?names (selected_prompt_name sel) = Some j
                        \<and> selected_index sel = int j
                        \<and> (\<exists>p c. subscript_int (prompt_list sel) (int j) = Inr p
                               \<and> dict_get p ''content'' (JArr []) = Inr c
                               \<and> str_join c = Inr (initial_content_str sel))
               else selected_index sel = - 1 \<and> initial_content_str sel = []"
    by blast
  from k have ne: "?names \<noteq> []" by auto
  from sn k ne have sn': "selected_prompt_name sel = ?names ! pick"
    by (simp add: selectbox_def)
  from res t sn' obtain j p c where
    li: "list_index ?names (?names ! pick) = Some j"
    and si: "selected_index sel = int j"
    and sub: "subscript_int (prompt_list sel) (int j) = Inr p"
    and dc: "dict_get p ''content'' (JArr []) = Inr c"
    and sj: "str_join c = Inr (initial_content_str sel)"
    by auto
  from list_index_first [OF k] li have jk: "j \<le> pick" by auto
  from list_index_Some [OF li] have
    jl: "j < length ?names" and je: "rich_eq (?names ! j) (?names ! pick)"
    and jm: "\<forall>i<j. \<not> rich_eq (?names ! i) (?names ! pick)"
    by auto
  from prompt_names_from_shape [OF nm] have
    len: "length ?names = length items" and dicts: "\<forall>p\<in>set items. \<exists>kvs. p = JObj kvs"
    by auto
  from len ne have ni: "items \<noteq> []" by auto
  have pl: "prompt_list sel = JArr items" using it ni dicts by (rule py_iter_dicts)
  from sub jl len have pj: "p = items ! j"
    by (simp add: pl subscript_int_def norm_index_nat)
  from dicts jl len obtain kvs where kv: "items ! j = JObj kvs"
    using nth_mem by metis
  from pl f len jk si je jm kv dc sj pj show ?thesis
    by (intro exI [of _ items] exI [of _ j] exI [of _ kvs] exI [of _ c]) simp
qed

lemma str_items_total: "list_all is_str xs \<Longrightarrow> \<exists>ss. str_items xs = Inr ss"
proof (induction xs)
  case Nil
  then show ?case by simp
next
  case (Cons x xs)
  then obtain s where "x = JStr s" by (cases x) auto
  with Cons show ?case by (auto simp: bnd_def)
qed

lemma str_join_total: "list_all is_str xs \<Longrightarrow> \<exists>t. str_join (JArr xs) = Inr t"
  using str_items_total [of xs] by (auto simp: str_join_def py_iter_def bnd_def)

lemma well_formed_content:
  "well_formed_prompt p \<Longrightarrow>
     \<exists>c t. dict_get p ''content'' (JArr []) = Inr c \<and> str_join c = Inr t"
proof -
  assume w: "well_formed_prompt p"
  then obtain kvs where p: "p = JObj kvs"
    by (cases p) (auto simp: well_formed_prompt_def)
  show ?thesis
  proof (cases "map_of kvs ''content''")
    case None
    then show ?thesis
      using str_join_total [of "[]"] by (simp add: p dict_get_def)
  next
    case (Some c)
    with w p obtain xs where c: "c = JArr xs" "list_all is_str xs"
      by (cases c) (auto simp: well_formed_prompt_def)
    with Some show ?thesis
      using str_join_total [of xs] by (simp add: p dict_get_def)
  qed
qed

lemma prompt_names_from_total:
  "list_all well_formed_prompt ps \<Longrightarrow>
     \<exists>names. prompt_names_from i ps = Inr names \<and> length names = length ps"
proof (induction ps arbitrary: i)
  case Nil
  then show ?case by simp
next
  case (Cons p ps)
  then obtain kvs where "p = JObj kvs"
    by (cases p) (auto simp: well_formed_prompt_def)
  moreover from Cons obtain names where
    "prompt_names_from (Suc i) ps = Inr names" "length names = length ps"
    by fastforce
  ultimately show ?case by (simp add: bnd_def dict_get_def)
qed

lemma select_prompt_total:
  assumes f: "first_app_prompts data = Inr (JArr ps)"
      and w: "list_all well_formed_prompt ps"
  shows "\<exists>msgs sel. select_prompt data pick = Inr (msgs, sel) \<and> prompt_list sel = JArr ps
           \<and> length (prompt_names sel) = length ps"
proof -
  from prompt_names_from_total [OF w, of 0] obtain names where
    nm: "prompt_names_from 0 ps = Inr names" and len: "length names = length ps"
    by blast
  let ?name = "selectbox names pick"
  show ?thesis
  proof (cases "truthy ?name")
    case False
    then show ?thesis
      using f nm len by (simp add: select_prompt_def bnd_def py_iter_def)
  next
    case True
    then have ne: "names \<noteq> []" by (auto simp: selectbox_def)
    then obtain k where k: "k < length names" "?name = names ! k"
      by (cases "pick < length names") (auto simp: selectbox_def)
    from list_index_first [OF k(1)] obtain j where
      j: "j \<le> k" "list_index names ?name = Some j"
      by (auto simp: k(2))
    from j(1) k(1) len have jl: "j < length ps" by simp
    with w have "well_formed_prompt (ps ! j)" by (simp add: list_all_length)
    from well_formed_content [OF this] obtain c t where
      c: "dict_get (ps ! j) ''content'' (JArr []) = Inr c" "str_join c = Inr t"
      by blast
    have sub: "subscript_int (JArr ps) (int j) = Inr (ps ! j)"
      using jl by (simp add: subscript_int_def norm_index_nat)
    show ?thesis
      using f nm len True j(2) sub c
      by (simp add: select_prompt_def bnd_def py_iter_def)
  qed
qed

text \<open>
  C9, as stated, fails: the select box returns a name, and the index is found again by
  name. In the example document both prompts are named alike; picking the second one
  resolves to index 0 and shows the content of the first prompt, not the lines of the
  second.
\<close>

theorem select_prompt_content_counterexample:
  "select_prompt example_document 1 = Inr ([], example_selection)
   \<and> selected_index example_selection = 0
   \<and> initial_content_str example_selection = [CHR ''a'', nl, CHR ''b'']
   \<and> first_app_prompts example_document = Inr (prompt_list example_selection)
   \<and> subscript_int (prompt_list example_selection) 1
       = Inr (JObj [(''name'', JStr ''greeting''), (''content'', JArr [JStr ''c''])])
   \<and> str_join (JArr [JStr ''c'']) = Inr ''c''"
  by (simp add: example_document_def example_selection_def select_prompt_def
      first_app_prompts_def bnd_def subscript_key_def subscript_int_def norm_index_def
      dict_get_def py_iter_def selectbox_def str_join_def Let_def rich_eq_def)

text \<open>
  C9, amended: picking position \<open>pick\<close>, whose name is not empty (truthy), yields the
  content lines, joined by line breaks, of the first prompt of app 0 whose name equals the
  name at \<open>pick\<close>; that is prompt \<open>pick\<close> itself when no earlier prompt has an equal
  name. When app 0 has no prompts the selection shows a warning, resolves to the index -1
  and the empty text, and raises nothing. Whenever the prompts of app 0 are dicts whose
  content, if present, is a list of strings, the selection returns a result.
\<close>

theorem select_prompt_content:
  "(select_prompt data pick = Inr (msgs, sel) \<and> pick < length (prompt_names sel)
      \<and> truthy (prompt_names sel ! pick) \<longrightarrow>
      (\<exists>ps i c. prompt_list sel = JArr ps \<and> length ps = length (prompt_names sel)
          \<and> i \<le> pick \<and> selected_index sel = int i
          \<and> rich_eq (prompt_names sel ! i) (prompt_names sel ! pick)
          \<and> (\<forall>j<i. \<not> rich_eq (prompt_names sel ! j) (prompt_names sel ! pick))
          \<and> ((\<forall>j<pick. \<not> rich_eq (prompt_names sel ! j) (prompt_names sel ! pick)) \<longrightarrow> i = pick)
          \<and> dict_get (ps ! i) ''content'' (JArr []) = Inr c
          \<and> str_join c = Inr (initial_content_str sel)))
   \<and> (first_app_prompts data = Inr (JArr []) \<longrightarrow>
        select_prompt data pick
          = Inr ([Warning_no_prompts],
                 \<lparr>prompt_list = JArr [], prompt_names = [], selected_prompt_name = JNull,
                  selected_index = - 1, initial_content_str = []\<rparr>))
   \<and> (first_app_prompts data = Inr (JArr qs) \<and> list_all well_formed_prompt qs \<longrightarrow>
        (\<exists>m r. select_prompt data pick = Inr (m, r) \<and> prompt_list r = JArr qs
           \<and> length (prompt_names r) = length qs))"
proof (intro conjI impI)
  assume a: "select_prompt data pick = Inr (msgs, sel) \<and> pick < length (prompt_names sel)
      \<and> truthy (prompt_names sel ! pick)"
  from a select_prompt_resolved [of data pick msgs sel] obtain ps i c where
    r: "prompt_list sel = JArr ps" "length ps = length (prompt_names sel)" "i \<le> pick"
       "selected_index sel = int i"
       "rich_eq (prompt_names sel ! i) (prompt_names sel ! pick)"
       "\<forall>j<i. \<not> rich_eq (prompt_names sel ! j) (prompt_names sel ! pick)"
       "dict_get (ps ! i) ''content'' (JArr []) = Inr c"
       "str_join c = Inr (initial_content_str sel)"
    by blast
  have "(\<forall>j<pick. \<not> rich_eq (prompt_names sel ! j) (prompt_names sel ! pick)) \<longrightarrow> i = pick"
    using r(3,5) by (auto simp: le_less)
  with r show "\<exists>ps i c. prompt_list sel = JArr ps \<and> length ps = length (prompt_names sel)
          \<and> i \<le> pick \<and> selected_index sel = int i
          \<and> rich_eq (prompt_names sel ! i) (prompt_names sel ! pick)
          \<and> (\<forall>j<i. \<not> rich_eq (prompt_names sel ! j) (prompt_names sel ! pick))
          \<and> ((\<forall>j<pick. \<not> rich_eq (prompt_names sel ! j) (prompt_names sel ! pick)) \<longrightarrow> i = pick)
          \<and> dict_get (ps ! i) ''content'' (JArr []) = Inr c
          \<and> str_join c = Inr (initial_content_str sel)"
    by blast
next
  assume "first_app_prompts data = Inr (JArr [])"
  then show "select_prompt data pick
          = Inr ([Warning_no_prompts],
                 \<lparr>prompt_list = JArr [], prompt_names = [], selected_prompt_name = JNull,
                  selected_index = - 1, initial_content_str = []\<rparr>)"
    by (simp add: select_prompt_def bnd_def py_iter_def selectbox_def)
next
  assume "first_app_prompts data = Inr (JArr qs) \<and> list_all well_formed_prompt qs"
  then show "\<exists>m r. select_prompt data pick = Inr (m, r) \<and> prompt_list r = JArr qs
           \<and> length (prompt_names r) = length qs"
    using select_prompt_total [of data qs pick] by blast
qed

theorem select_prompt_content_witness:
  "select_prompt example_document 1 = Inr ([], example_selection)
   \<and> 1 < length (prompt_names example_selection)
   \<and> truthy (prompt_names example_selection ! 1)
   \<and> (\<exists>ps i c. prompt_list example_selection = JArr ps
          \<and> length ps = length (prompt_names example_selection)
          \<and> i \<le> 1 \<and> selected_index example_selection = int i
          \<and> rich_eq (prompt_names example_selection ! i) (prompt_names example_selection ! 1)
          \<and> (\<forall>j<i. \<not> rich_eq (prompt_names example_selection ! j)
                          (prompt_names example_selection ! 1))
          \<and> ((\<forall>j<1. \<not> rich_eq (prompt_names example_selection ! j)
                           (prompt_names example_selection ! 1)) \<longrightarrow> i = 1)
          \<and> dict_get (ps ! i) ''content'' (JArr []) = Inr c
          \<and> str_join c = Inr (initial_content_str example_selection))
   \<and> first_app_prompts default_document = Inr (JArr [])
   \<and> select_prompt default_document 0
       = Inr ([Warning_no_prompts],
              \<lparr>prompt_list = JArr [], prompt_names = [], selected_prompt_name = JNull,
               selected_index = - 1, initial_content_str = []\<rparr>)
   \<and> first_app_prompts example_document = Inr (JArr example_prompts)
   \<and> list_all well_formed_prompt example_prompts
   \<and> (\<exists>m r. select_prompt example_document 1 = Inr (m, r)
          \<and> prompt_list r = JArr example_prompts
          \<and> length (prompt_names r) = length example_prompts)"
proof -
  have h1: "select_prompt example_document 1 = Inr ([], example_selection)"
    by (simp add: example_document_def example_selection_def select_prompt_def
        first_app_prompts_def bnd_def subscript_key_def subscript_int_def norm_index_def
        dict_get_def py_iter_def selectbox_def str_join_def Let_def rich_eq_def)
  have h2: "1 < length (prompt_names example_selection)"
    by (simp add: example_selection_def)
  have h3: "truthy (prompt_names example_selection ! 1)"
    by (simp add: example_selection_def)
  have h4: "first_app_prompts default_document = Inr (JArr [])"
    by (simp add: default_document_def first_app_prompts_def bnd_def subscript_key_def
        subscript_int_def norm_index_def dict_get_def)
  have h5: "first_app_prompts example_document = Inr (JArr example_prompts)"
    by (simp add: example_document_def example_prompts_def first_app_prompts_def bnd_def
        subscript_key_def subscript_int_def norm_index_def dict_get_def)
  have h6: "list_all well_formed_prompt example_prompts"
    by (simp add: example_prompts_def well_formed_prompt_def)
  note t1 = select_prompt_content [of example_document 1 "[]" example_selection,
      THEN conjunct1, THEN mp, OF conjI [OF h1 conjI [OF h2 h3]]]
  note t2 = select_prompt_content [of default_document 0 "[]" example_selection,
      THEN conjunct2, THEN conjunct1, THEN mp, OF h4]
  note t3 = select_prompt_content [of example_document 1 "[]" example_selection
      example_prompts, THEN conjunct2, THEN conjunct2, THEN mp, OF conjI [OF h5 h6]]
  show ?thesis
    by (intro conjI h1 h2 h3 h4 h5 h6 t1 t2 t3)
qed

text \<open>
  For prompts of the snapshot shape and a picked position whose name is truthy, the
  selection returns, and its index is the first position that carries the selected name,
  never a later one. So with equal names the text shown is the content of the first such
  prompt; the assignment of line 120 succeeds and replaces the content of that first
  prompt only; and an edit that changes the text, with a store that accepts the write, is
  published with exactly that replacement.
\<close>

lemma truthy_name_edits_first:
  assumes f: "first_app_prompts data = Inr (JArr ps)"
      and w: "list_all well_formed_prompt ps"
      and nm: "prompt_names_from 0 ps = Inr names"
      and k: "pick < length ps"
      and t: "truthy (names ! pick)"
  shows "\<exists>msgs sel i kvs. select_prompt data pick = Inr (msgs, sel)
           \<and> prompt_list sel = JArr ps \<and> prompt_names sel = names
           \<and> i \<le> pick \<and> selected_index sel = int i
           \<and> rich_eq (names ! i) (names ! pick)
           \<and> (\<forall>j<i. \<not> rich_eq (names ! j) (names ! pick))
           \<and> ps ! i = JObj kvs
           \<and> bnd (dict_get (ps ! i) ''content'' (JArr [])) str_join
               = Inr (initial_content_str sel)
           \<and> (\<forall>v. \<exists>cand. set_prompt_content data (selected_index sel) v = Inr cand
                  \<and> first_app_prompts cand
                      = Inr (JArr (ps[i := JObj (AList.update ''content'' v kvs)])))
           \<and> (\<forall>lib ts b s edited.
                 strip edited \<noteq> strip (initial_content_str sel) \<and> \<not> upload_fails b \<longrightarrow>
                 (\<exists>b' s' m cand.
                    upload_changes lib ts b s data sel edited = Inr (b', s', m, True)
                    \<and> prompt_data s' = Some cand
                    \<and> first_app_prompts cand
                        = Inr (JArr (ps[i := JObj (AList.update ''content''
                                 (JArr (map JStr (split_nl edited))) kvs)]))))"
proof -
  from select_prompt_total [OF f w, of pick] obtain msgs sel where
    sp: "select_prompt data pick = Inr (msgs, sel)" and pl: "prompt_list sel = JArr ps"
    by blast
  from select_prompt_Inr [OF sp] nm have names: "prompt_names sel = names"
    by (auto simp: pl py_iter_def)
  from prompt_names_from_shape [OF nm] k have kn: "pick < length (prompt_names sel)"
    by (simp add: names)
  from t have tn: "truthy (prompt_names sel ! pick)" by (simp add: names)
  from select_prompt_resolved [OF sp kn tn] obtain ps' i kvs c where
    pl': "prompt_list sel = JArr ps'"
    and ik: "i \<le> pick"
    and si: "selected_index sel = int i"
    and je: "rich_eq (prompt_names sel ! i) (prompt_names sel ! pick)"
    and jm: "\<forall>j<i. \<not> rich_eq (prompt_names sel ! j) (prompt_names sel ! pick)"
    and kv': "ps' ! i = JObj kvs"
    and dc': "dict_get (ps' ! i) ''content'' (JArr []) = Inr c"
    and sj: "str_join c = Inr (initial_content_str sel)"
    by blast
  from pl pl' have pe: "ps' = ps" by simp
  note kv = kv' [unfolded pe] and dc = dc' [unfolded pe]
  from ik k have il: "i < length ps" by simp
  then have ne: "ps \<noteq> []" by auto
  have rd: "bnd (dict_get (ps ! i) ''content'' (JArr [])) str_join
               = Inr (initial_content_str sel)"
    by (simp add: bnd_def dc sj)
  have wr: "\<exists>cand. set_prompt_content data (selected_index sel) v = Inr cand
                  \<and> first_app_prompts cand
                      = Inr (JArr (ps[i := JObj (AList.update ''content'' v kvs)]))" for v
    using set_prompt_content_prompts [OF f ne il kv, of v] by (simp add: si)
  have up: "\<exists>b' s' m cand.
                    upload_changes lib ts b s data sel edited = Inr (b', s', m, True)
                    \<and> prompt_data s' = Some cand
                    \<and> first_app_prompts cand
                        = Inr (JArr (ps[i := JObj (AList.update ''content''
                                 (JArr (map JStr (split_nl edited))) kvs)]))"
    if u: "strip edited \<noteq> strip (initial_content_str sel) \<and> \<not> upload_fails b"
    for lib ts b s edited
  proof -
    from wr [of "JArr (map JStr (split_nl edited))"] obtain cand where
      c: "set_prompt_content data (selected_index sel) (JArr (map JStr (split_nl edited)))
            = Inr cand"
      and fc: "first_app_prompts cand
                 = Inr (JArr (ps[i := JObj (AList.update ''content''
                                 (JArr (map JStr (split_nl edited))) kvs)]))"
      by blast
    have "upload_changes lib ts b s data sel edited
            = Inr (fst (upload_prompt_repo_to_blob lib ts b cand),
                   s\<lparr>prompt_data := Some cand, cache := None\<rparr>,
                   [Success_uploaded (snapshot_name ts)], True)"
      using u c si by (simp add: upload_changes_def bnd_def upload_ok_result)
    with fc show ?thesis by simp
  qed
  note je' = je [unfolded names] and jm' = jm [unfolded names]
  from sp pl names ik si je' jm' kv rd wr up show ?thesis
    by blast
qed

text \<open>
  C10 says that with equal names every selection reads and edits the first prompt of that
  name. The code misses the case of a name that is the empty string: line 110 tests the
  truth value of the selected name where it means to test for None, so for two prompts
  both named \<^verbatim>\<open>""\<close> either selection resolves to the index -1, the text area shows nothing
  instead of the first prompt's line \<^verbatim>\<open>x\<close>, and \<^verbatim>\<open>Upload Changes to Azure\<close> with a new text
  answers that nothing changed or no prompt is selected: the store is not called and the
  first prompt keeps its content.
\<close>

theorem empty_name_selects_nothing:
  "select_prompt empty_names_document 0 = Inr ([], empty_names_selection)
   \<and> select_prompt empty_names_document 1 = Inr ([], empty_names_selection)
   \<and> selected_index empty_names_selection = - 1
   \<and> initial_content_str empty_names_selection = []
   \<and> first_app_prompts empty_names_document = Inr (prompt_list empty_names_selection)
   \<and> subscript_int (prompt_list empty_names_selection) 0
       = Inr (JObj [(''name'', JStr []), (''content'', JArr [JStr ''x''])])
   \<and> str_join (JArr [JStr ''x'']) = Inr ''x''
   \<and> upload_changes example_lib ''20240101_110000'' example_backend
        \<lparr>prompt_data = Some empty_names_document, cache = None\<rparr>
        empty_names_document empty_names_selection ''z''
       = Inr (example_backend, \<lparr>prompt_data = Some empty_names_document, cache = None\<rparr>,
              [Info_no_changes], False)"
  by (simp add: empty_names_document_def empty_names_selection_def select_prompt_def
      first_app_prompts_def bnd_def subscript_key_def subscript_int_def norm_index_def
      dict_get_def py_iter_def selectbox_def str_join_def Let_def rich_eq_def upload_changes_def)

end
